theory Spec2Isabelle
  imports Complex_Main "HOL-Library.Sublist"
begin

section \<open>JavaScript values as the timer commands use them\<close>

text \<open>
  The commands of \<^verbatim>\<open>src/commands/timer.ts\<close> are embedded as functions from
  an environment (the collaborators and the runtime) to an outcome and a trace of the
  calls made and the lines printed. Strings are byte strings; icons, colours, line
  breaks, quotation marks and apostrophes of the printed lines are left out, other
  non-ASCII signs are written in ASCII.

  A value that JavaScript may leave undefined or null is an \<open>option\<close>. The tests
  \<^verbatim>\<open>if (v)\<close>, \<^verbatim>\<open>!v\<close> and \<^verbatim>\<open>v || d\<close> read truthiness: a
  string is truthy when it is present and not empty.
\<close>

definition truthy :: "string option \<Rightarrow> bool" where
  "truthy v = (case v of None \<Rightarrow> False | Some s \<Rightarrow> s \<noteq> [])"

definition truthy_value :: "string option \<Rightarrow> string option" where
  "truthy_value v = (case v of None \<Rightarrow> None | Some s \<Rightarrow> if s = [] then None else Some s)"

definition or_text :: "string \<Rightarrow> string \<Rightarrow> string" where
  "or_text s d = (if s = [] then d else s)"

text \<open>A thrown value: an \<^verbatim>\<open>Error\<close> with its message, or anything else.\<close>

datatype thrown = Error string | NonError

definition error_message :: "thrown \<Rightarrow> string" where
  "error_message error = (case error of Error m \<Rightarrow> m | NonError \<Rightarrow> ''Unknown error'')"

text \<open>
  The fold of the letters A to Z. It stands for \<^verbatim>\<open>toLowerCase\<close> only where
  the result is compared with the word \<^verbatim>\<open>last\<close>: the runtime's function folds
  the other cased letters too, none of them into a, l, s or t, so the comparison comes
  out the same. Where names are compared the runtime's function is a parameter of the
  environment, \<open>String_toLowerCase\<close>.
\<close>

definition toLowerChar :: "char \<Rightarrow> char" where
  "toLowerChar c =
     (case map_of (zip ''ABCDEFGHIJKLMNOPQRSTUVWXYZ'' ''abcdefghijklmnopqrstuvwxyz'') c of
        Some l \<Rightarrow> l | None \<Rightarrow> c)"

definition toLowerCase :: "string \<Rightarrow> string" where
  "toLowerCase s = map toLowerChar s"

definition str_includes :: "string \<Rightarrow> string \<Rightarrow> bool" where
  "str_includes s part = sublist part s"

definition split_T_first :: "string \<Rightarrow> string" where
  "split_T_first s = takeWhile (\<lambda>c. c \<noteq> CHR ''T'') s"

definition is_digit :: "char \<Rightarrow> bool" where
  "is_digit c = (let n = (of_char c :: nat) in 48 \<le> n \<and> n \<le> 57)"

definition digit_value :: "char \<Rightarrow> int" where
  "digit_value c = int (of_char c) - 48"

definition parseInt :: "string \<Rightarrow> int" where
  "parseInt s = foldl (\<lambda>n c. 10 * n + digit_value c) 0 s"

text \<open>
  The match of \<^verbatim>\<open>/^(\d{1,2}):(\d{2})$/\<close>: the two groups, when the text
  is one or two digits, a colon and two digits, and nothing else.
\<close>

fun timeMatch :: "string \<Rightarrow> (string \<times> string) option" where
  "timeMatch [h1, c, m1, m2] =
     (if is_digit h1 \<and> c = CHR '':'' \<and> is_digit m1 \<and> is_digit m2
      then Some ([h1], [m1, m2]) else None)"
| "timeMatch [h1, h2, c, m1, m2] =
     (if is_digit h1 \<and> is_digit h2 \<and> c = CHR '':'' \<and> is_digit m1 \<and> is_digit m2
      then Some ([h1, h2], [m1, m2]) else None)"
| "timeMatch _ = None"

definition digit_char :: "nat \<Rightarrow> char" where
  "digit_char n = ''0123456789'' ! n"

fun decimal :: "nat \<Rightarrow> string" where
  "decimal n =
     (if n < 10 then [digit_char n] else decimal (n div 10) @ [digit_char (n mod 10)])"

fun join :: "string \<Rightarrow> string list \<Rightarrow> string" where
  "join sep [] = []"
| "join sep [x] = x"
| "join sep (x # y # ys) = x @ sep @ join sep (y # ys)"

subsection \<open>Numbers and dates\<close>

text \<open>
  A number is an integer or NaN (\<open>None\<close>); a \<^verbatim>\<open>Date\<close> is its time value
  in milliseconds since the epoch, or NaN for an invalid date. A \<^verbatim>\<open>Date\<close>
  made from a number is valid within 8.64e15 ms of the epoch and invalid beyond
  (\<open>timeClip\<close>); the clock's reading and what the runtime parses are valid time
  values or NaN. Within that range the doubles of the code are exact integers.
\<close>

type_synonym number = "int option"

definition maxTime :: int where
  "maxTime = 8640000000000000"

definition timeClip :: "number \<Rightarrow> number" where
  "timeClip d =
     (case d of None \<Rightarrow> None | Some t \<Rightarrow> if \<bar>t\<bar> \<le> maxTime then Some t else None)"

definition num_add :: "number \<Rightarrow> number \<Rightarrow> number" where
  "num_add a b = (case a of None \<Rightarrow> None | Some x \<Rightarrow> (case b of None \<Rightarrow> None | Some y \<Rightarrow> Some (x + y)))"

definition num_sub :: "number \<Rightarrow> number \<Rightarrow> number" where
  "num_sub a b = (case a of None \<Rightarrow> None | Some x \<Rightarrow> (case b of None \<Rightarrow> None | Some y \<Rightarrow> Some (x - y)))"

text \<open>
  \<^verbatim>\<open>Math.round(d / 60000)\<close>: the nearest integer, a tie going up.
\<close>

definition round_minutes :: "number \<Rightarrow> number" where
  "round_minutes d = (case d of None \<Rightarrow> None | Some x \<Rightarrow> Some ((x + 30000) div 60000))"

definition msPerDay :: int where
  "msPerDay = 86400000"

text \<open>
  Local time follows the zone's rules, which the runtime has: \<open>tza t True\<close> is the
  zone's offset (in ms) at the instant \<open>t\<close>, \<open>tza w False\<close> the offset the zone
  gives the local time \<open>w\<close> (for a local time that a change of offset skips or
  repeats, the runtime picks one).

  \<^verbatim>\<open>setHours(h, m, 0, 0)\<close>: the local day of the date is kept, the time within
  the day is replaced by h hours and m minutes, and the local time so made is taken back
  to an instant and clipped.
\<close>

definition localTime :: "(int \<Rightarrow> bool \<Rightarrow> int) \<Rightarrow> int \<Rightarrow> int" where
  "localTime tza t = t + tza t True"

definition localDay :: "(int \<Rightarrow> bool \<Rightarrow> int) \<Rightarrow> int \<Rightarrow> int" where
  "localDay tza t = localTime tza t div msPerDay"

definition setHours :: "(int \<Rightarrow> bool \<Rightarrow> int) \<Rightarrow> number \<Rightarrow> int \<Rightarrow> int \<Rightarrow> number" where
  "setHours tza d h m =
     (case d of None \<Rightarrow> None
      | Some t \<Rightarrow>
          (let wall = localDay tza t * msPerDay + (h * 3600000 + m * 60000)
           in timeClip (Some (wall - tza wall False))))"

definition getHours :: "(int \<Rightarrow> bool \<Rightarrow> int) \<Rightarrow> int \<Rightarrow> int" where
  "getHours tza t = (localTime tza t mod msPerDay) div 3600000"

definition getMinutes :: "(int \<Rightarrow> bool \<Rightarrow> int) \<Rightarrow> int \<Rightarrow> int" where
  "getMinutes tza t = (localTime tza t mod 3600000) div 60000"

definition getSeconds :: "(int \<Rightarrow> bool \<Rightarrow> int) \<Rightarrow> int \<Rightarrow> int" where
  "getSeconds tza t = (localTime tza t mod 60000) div 1000"

definition getMilliseconds :: "(int \<Rightarrow> bool \<Rightarrow> int) \<Rightarrow> int \<Rightarrow> int" where
  "getMilliseconds tza t = localTime tza t mod 1000"

section \<open>The data model\<close>

text \<open>
  Modelled from the spec: the declarations of \<^verbatim>\<open>src/types/clockify\<close> are not
  among the sources. The records hold the fields the commands read or write, as the
  spec's data model lists them; a field the spec calls optional is an \<open>option\<close>.
  For an end that is missing, \<open>ti_end_null\<close> tells whether it is null rather than
  undefined: the two are alike in every test, and differ in \<^verbatim>\<open>new Date(end)\<close>,
  the epoch for null and an invalid date for undefined (\<open>Date_of_end\<close> below).
\<close>

record time_interval =
  ti_start :: string
  ti_end :: "string option"
  ti_end_null :: bool

record time_entry =
  entry_id :: string
  description :: string
  billable :: bool
  tagIds :: "string list"
  projectId :: "string option"
  taskId :: "string option"
  timeInterval :: time_interval
  project_name :: "string option"
  task_name :: "string option"

record time_entry_request =
  rq_start :: string
  rq_end :: "string option"
  rq_description :: string
  rq_billable :: bool
  rq_projectId :: "string option"
  rq_taskId :: "string option"
  rq_tagIds :: "string list option"

record project =
  prj_id :: string
  prj_name :: string

record project_spec =
  ps_name :: string
  ps_isPublic :: bool
  ps_billable :: bool
  ps_color :: string

record user =
  usr_id :: string

text \<open>The options object of a command; a flag not given is \<open>None\<close>.\<close>

record options =
  opt_description :: "string option"
  opt_project :: "string option"
  opt_billable :: "bool option"
  opt_startTime :: "string option"
  opt_endTime :: "string option"

text \<open>
  Modelled from the spec: \<^verbatim>\<open>sanitizeInput\<close> of \<^verbatim>\<open>src/lib/utils\<close> is not
  among the sources; the spec has descriptions sanitized to strip control characters.
\<close>

definition is_control :: "char \<Rightarrow> bool" where
  "is_control c = (let n = (of_char c :: nat) in n < 32 \<or> n = 127)"

definition sanitizeInput :: "string \<Rightarrow> string" where
  "sanitizeInput s = filter (\<lambda>c. \<not> is_control c) s"

section \<open>Collaborators and runtime\<close>

text \<open>
  The environment of one command: the configuration store, the remote client (a call
  answers with a value or throws), the two remaining helpers of
  \<^verbatim>\<open>src/lib/utils\<close>, and the runtime's clock, zone rules, date parsing, date
  rendering and lower-casing of strings. The command reads the clock once where it uses
  it; \<open>now\<close> is that reading.
\<close>

record env =
  hasApiKey :: bool
  workspaceId :: "string option"
  billableByDefault :: bool
  getCurrentUser :: "thrown + user"
  getTimeEntries :: "string \<Rightarrow> string \<Rightarrow> thrown + time_entry list"
  getProjects :: "string \<Rightarrow> thrown + project list"
  createProject :: "string \<Rightarrow> project_spec \<Rightarrow> thrown + project"
  startTimer :: "string \<Rightarrow> time_entry_request \<Rightarrow> thrown + time_entry"
  stopTimer :: "string \<Rightarrow> string \<Rightarrow> thrown + time_entry"
  createTimeEntry :: "string \<Rightarrow> time_entry_request \<Rightarrow> thrown + time_entry"
  updateTimeEntry :: "string \<Rightarrow> string \<Rightarrow> time_entry_request \<Rightarrow> thrown + time_entry"
  parseDuration :: "string \<Rightarrow> thrown + int"
  formatDuration :: "number \<Rightarrow> string"
  now :: int
  localTZA :: "int \<Rightarrow> bool \<Rightarrow> int"
  Date_parse :: "string \<Rightarrow> number"
  toISOString :: "int \<Rightarrow> string"
  toLocaleString :: "number \<Rightarrow> string"
  toLocaleTimeString :: "number \<Rightarrow> string"
  String_toLowerCase :: "string \<Rightarrow> string"

datatype api_call =
    GetCurrentUser
  | GetTimeEntries string string
  | GetProjects string
  | CreateProject string project_spec
  | StartTimer string time_entry_request
  | StopTimer string string
  | CreateTimeEntry string time_entry_request
  | UpdateTimeEntry string string time_entry_request

datatype event = Print string | Call api_call

datatype outcome = Returned | Exited nat

text \<open>
  The body of a \<^verbatim>\<open>try\<close>: the trace so far, and either the value thrown or the
  result. \<open>await\<close> is a call of the remote client inside it; \<open>catch\<close> is the
  handler every command ends with.
\<close>

type_synonym 'a body = "event list \<times> (thrown + 'a)"

definition await :: "event list \<Rightarrow> api_call \<Rightarrow> thrown + 'a \<Rightarrow> (event list \<Rightarrow> 'a \<Rightarrow> 'b body) \<Rightarrow> 'b body" where
  "await tr c answer k =
     (case answer of Inl error \<Rightarrow> (tr @ [Call c], Inl error) | Inr v \<Rightarrow> k (tr @ [Call c]) v)"

definition catch :: "string \<Rightarrow> outcome body \<Rightarrow> outcome \<times> event list" where
  "catch what b =
     (case b of
        (tr, Inl error) \<Rightarrow> (Exited 1, tr @ [Print (''Failed to '' @ what @ '': '' @ error_message error)])
      | (tr, Inr out) \<Rightarrow> (out, tr))"

text \<open>
  \<^verbatim>\<open>toISOString\<close> throws for an invalid date. A date beyond the valid range is
  invalid from where it is made (\<open>timeClip\<close>), so it throws for that one too.
\<close>

definition toISOString_of :: "env \<Rightarrow> number \<Rightarrow> thrown + string" where
  "toISOString_of e d =
     (case d of None \<Rightarrow> Inl (Error ''Invalid time value'') | Some t \<Rightarrow> Inr (toISOString e t))"

definition rule_line :: string where
  "rule_line = replicate 50 (CHR ''-'')"

definition yes_no :: "bool \<Rightarrow> string" where
  "yes_no b = (if b then ''Yes'' else ''No'')"

definition running :: "time_entry \<Rightarrow> bool" where
  "running entry = (\<not> truthy (ti_end (timeInterval entry)))"

definition project_matches :: "env \<Rightarrow> string \<Rightarrow> project \<Rightarrow> bool" where
  "project_matches e wanted p =
     (str_includes (String_toLowerCase e (prj_name p)) (String_toLowerCase e wanted)
      \<or> prj_id p = wanted)"

text \<open>
  \<^verbatim>\<open>new Date(entry.timeInterval.end!)\<close>, where the end may be missing.
\<close>

definition Date_of_end :: "env \<Rightarrow> time_interval \<Rightarrow> number" where
  "Date_of_end e ti =
     (case ti_end ti of
        Some s \<Rightarrow> Date_parse e s
      | None \<Rightarrow> if ti_end_null ti then Some 0 else None)"

section \<open>start\<close>

definition start_request :: "env \<Rightarrow> options \<Rightarrow> time_entry_request" where
  "start_request e opts =
     \<lparr> rq_start = toISOString e (now e),
       rq_end = None,
       rq_description =
         (case truthy_value (opt_description opts) of Some d \<Rightarrow> sanitizeInput d | None \<Rightarrow> []),
       rq_billable = (case opt_billable opts of Some b \<Rightarrow> b | None \<Rightarrow> billableByDefault e),
       rq_projectId = None,
       rq_taskId = None,
       rq_tagIds = None \<rparr>"

definition start_timer :: "env \<Rightarrow> string \<Rightarrow> time_entry_request \<Rightarrow> event list \<Rightarrow> outcome body" where
  "start_timer e ws timeEntry tr =
     await tr (StartTimer ws timeEntry) (startTimer e ws timeEntry) (\<lambda>tr1 entry.
       (tr1 @ [Print ''Timer started successfully!'', Print rule_line]
          @ (case truthy_value (project_name entry) of
               Some n \<Rightarrow> [Print (''Project: '' @ n)] | None \<Rightarrow> [])
          @ (case truthy_value (task_name entry) of
               Some n \<Rightarrow> [Print (''Task: '' @ n)] | None \<Rightarrow> [])
          @ [Print (''Description: '' @ or_text (description entry) ''No description''),
             Print (''Billable: '' @ yes_no (billable entry)),
             Print (''Started: '' @ toLocaleTimeString e (Date_parse e (ti_start (timeInterval entry)))),
             Print rule_line,
             Print ''Use clockify status to check progress or clockify stop to finish''],
        Inr Returned))"

definition start_project :: "env \<Rightarrow> string \<Rightarrow> options \<Rightarrow> time_entry_request \<Rightarrow> event list \<Rightarrow> outcome body" where
  "start_project e ws opts timeEntry tr =
     (case truthy_value (opt_project opts) of
        None \<Rightarrow> start_timer e ws timeEntry tr
      | Some wanted \<Rightarrow>
          await tr (GetProjects ws) (getProjects e ws) (\<lambda>tr1 projects.
            case find (project_matches e wanted) projects of
              Some p \<Rightarrow>
                start_timer e ws (timeEntry\<lparr>rq_projectId := Some (prj_id p)\<rparr>)
                  (tr1 @ [Print (''Project: '' @ prj_name p)])
            | None \<Rightarrow>
                (let tr2 = tr1 @ [Print (''Creating new project: '' @ wanted)];
                     spec = \<lparr> ps_name = sanitizeInput wanted, ps_isPublic = True,
                              ps_billable = (case opt_billable opts of Some b \<Rightarrow> b
                                             | None \<Rightarrow> billableByDefault e),
                              ps_color = ''#4CAF50'' \<rparr>
                 in case createProject e ws spec of
                      Inr newProject \<Rightarrow>
                        start_timer e ws (timeEntry\<lparr>rq_projectId := Some (prj_id newProject)\<rparr>)
                          (tr2 @ [Call (CreateProject ws spec),
                                  Print (''Project '' @ prj_name newProject @ '' created successfully!''),
                                  Print (''Project: '' @ prj_name newProject)])
                    | Inl error \<Rightarrow>
                        start_timer e ws timeEntry
                          (tr2 @ [Call (CreateProject ws spec),
                                  Print (''Failed to create project '' @ wanted @ ''. Starting without project.''),
                                  Print (''Error: '' @ error_message error)]))))"

definition start_body :: "env \<Rightarrow> options \<Rightarrow> outcome body" where
  "start_body e opts =
     (let tr0 = [Print ''Starting timer...''] in
      if \<not> hasApiKey e
      then (tr0 @ [Print ''Not authenticated. Run: clockify auth login''], Inr (Exited 1))
      else case truthy_value (workspaceId e) of
        None \<Rightarrow> (tr0 @ [Print ''No workspace configured. Run: clockify auth status''], Inr (Exited 1))
      | Some ws \<Rightarrow>
          await tr0 GetCurrentUser (getCurrentUser e) (\<lambda>tr1 u.
          await tr1 (GetTimeEntries ws (usr_id u)) (getTimeEntries e ws (usr_id u)) (\<lambda>tr2 currentEntries.
            case find running currentEntries of
              Some runningEntry \<Rightarrow>
                (tr2 @ [Print ''Timer already running!'',
                        Print (''Current: '' @ or_text (description runningEntry) ''No description''),
                        Print ''Use clockify stop first or clockify status to see details''],
                 Inr Returned)
            | None \<Rightarrow> start_project e ws opts (start_request e opts) tr2)))"

definition start :: "env \<Rightarrow> options \<Rightarrow> outcome \<times> event list" where
  "start e opts = catch ''start timer'' (start_body e opts)"

section \<open>stop\<close>

definition stop_body :: "env \<Rightarrow> outcome body" where
  "stop_body e =
     (let tr0 = [Print ''Stopping timer...''] in
      if \<not> hasApiKey e
      then (tr0 @ [Print ''Not authenticated. Run: clockify auth login''], Inr (Exited 1))
      else case truthy_value (workspaceId e) of
        None \<Rightarrow> (tr0 @ [Print ''No workspace configured. Run: clockify auth status''], Inr (Exited 1))
      | Some ws \<Rightarrow>
          await tr0 GetCurrentUser (getCurrentUser e) (\<lambda>tr1 u.
          await tr1 (GetTimeEntries ws (usr_id u)) (getTimeEntries e ws (usr_id u)) (\<lambda>tr2 currentEntries.
            case find running currentEntries of
              None \<Rightarrow>
                (tr2 @ [Print ''No timer currently running'',
                        Print ''Use clockify start to begin tracking time''],
                 Inr Returned)
            | Some runningEntry \<Rightarrow>
                await tr2 (StopTimer ws (usr_id u)) (stopTimer e ws (usr_id u)) (\<lambda>tr3 stoppedEntry.
                  (let startTime = Date_parse e (ti_start (timeInterval stoppedEntry));
                       endTime = Date_of_end e (timeInterval stoppedEntry);
                       duration = num_sub endTime startTime;
                       durationMinutes = round_minutes duration
                   in (tr3 @ [Print ''Timer stopped successfully!'', Print rule_line]
                         @ (case truthy_value (project_name stoppedEntry) of
                              Some n \<Rightarrow> [Print (''Project: '' @ n)] | None \<Rightarrow> [])
                         @ [Print (''Description: '' @ or_text (description stoppedEntry) ''No description''),
                            Print (''Duration: '' @ formatDuration e durationMinutes),
                            Print (''Billable: '' @ yes_no (billable stoppedEntry)),
                            Print rule_line],
                       Inr Returned))))))"

definition stop :: "env \<Rightarrow> outcome \<times> event list" where
  "stop e = catch ''stop timer'' (stop_body e)"

section \<open>status\<close>

text \<open>
  The summary of the idle branch: the entries whose start has the date part of the
  clock's ISO rendering and whose end is truthy, and their minutes, each rounded before
  it is added.
\<close>

definition todayEntries :: "env \<Rightarrow> time_entry list \<Rightarrow> time_entry list" where
  "todayEntries e currentEntries =
     (let today = split_T_first (toISOString e (now e)) in
      filter (\<lambda>entry. split_T_first (ti_start (timeInterval entry)) = today
                       \<and> truthy (ti_end (timeInterval entry))) currentEntries)"

definition entry_minutes :: "env \<Rightarrow> time_entry \<Rightarrow> number" where
  "entry_minutes e entry =
     (let startTime = Date_parse e (ti_start (timeInterval entry));
          endTime = Date_of_end e (timeInterval entry);
          duration = num_sub endTime startTime
      in round_minutes duration)"

definition totalMinutes :: "env \<Rightarrow> time_entry list \<Rightarrow> number" where
  "totalMinutes e entries = foldl (\<lambda>total entry. num_add total (entry_minutes e entry)) (Some 0) entries"

definition status_body :: "env \<Rightarrow> outcome body" where
  "status_body e =
     (let tr0 = [Print ''Checking timer status...''] in
      if \<not> hasApiKey e
      then (tr0 @ [Print ''Not authenticated. Run: clockify auth login''], Inr Returned)
      else case truthy_value (workspaceId e) of
        None \<Rightarrow> (tr0 @ [Print ''No workspace configured. Run: clockify auth status''], Inr Returned)
      | Some ws \<Rightarrow>
          await tr0 GetCurrentUser (getCurrentUser e) (\<lambda>tr1 u.
          await tr1 (GetTimeEntries ws (usr_id u)) (getTimeEntries e ws (usr_id u)) (\<lambda>tr2 currentEntries.
            case find running currentEntries of
              None \<Rightarrow>
                (tr2 @ [Print ''No timer currently running'',
                        Print ''Use clockify start to begin tracking time'']
                     @ (if length (todayEntries e currentEntries) > 0
                        then [Print ''Todays Summary:'',
                              Print (''   '' @ decimal (length (todayEntries e currentEntries))
                                     @ '' entries - ''
                                     @ formatDuration e (totalMinutes e (todayEntries e currentEntries))
                                     @ '' total'')]
                        else []),
                 Inr Returned)
            | Some runningEntry \<Rightarrow>
                (let startTime = Date_parse e (ti_start (timeInterval runningEntry));
                     elapsed = num_sub (Some (now e)) startTime;
                     elapsedMinutes = round_minutes elapsed
                 in (tr2 @ [Print ''Timer is running'', Print rule_line]
                       @ (case truthy_value (project_name runningEntry) of
                            Some n \<Rightarrow> [Print (''Project: '' @ n)]
                          | None \<Rightarrow> [Print ''Project: No project''])
                       @ (case truthy_value (task_name runningEntry) of
                            Some n \<Rightarrow> [Print (''Task: '' @ n)] | None \<Rightarrow> [])
                       @ [Print (''Description: '' @ or_text (description runningEntry) ''No description''),
                          Print (''Started: '' @ toLocaleTimeString e startTime),
                          Print (''Elapsed: '' @ formatDuration e elapsedMinutes),
                          Print (''Billable: '' @ yes_no (billable runningEntry)),
                          Print rule_line,
                          Print ''Use clockify stop to finish or clockify stop -d Final description to update description''],
                     Inr Returned)))))"

definition status :: "env \<Rightarrow> outcome \<times> event list" where
  "status e = catch ''get timer status'' (status_body e)"

section \<open>add\<close>

text \<open>
  The time anchor, as \<^verbatim>\<open>add\<close> and \<^verbatim>\<open>edit\<close> both resolve it: a text of the
  shape HH:MM sets hours and minutes on the reference date, any other text is handed to
  the \<^verbatim>\<open>Date\<close> constructor.
\<close>

definition anchor :: "env \<Rightarrow> string \<Rightarrow> number \<Rightarrow> number" where
  "anchor e text reference =
     (case timeMatch text of
        Some (hh, mm) \<Rightarrow> setHours (localTZA e) reference (parseInt hh) (parseInt mm)
      | None \<Rightarrow> Date_parse e text)"

definition add_times :: "env \<Rightarrow> int \<Rightarrow> options \<Rightarrow> number \<times> number" where
  "add_times e durationMinutes opts =
     (case truthy_value (opt_startTime opts) of
        Some text \<Rightarrow>
          (let startTime = anchor e text (Some (now e));
               endTime = timeClip (num_add startTime (Some (durationMinutes * 60000)))
           in (startTime, endTime))
      | None \<Rightarrow>
          (let endTime = Some (now e);
               startTime = timeClip (num_sub endTime (Some (durationMinutes * 60000)))
           in (startTime, endTime)))"

definition add_create :: "env \<Rightarrow> string \<Rightarrow> int \<Rightarrow> time_entry_request \<Rightarrow> event list \<Rightarrow> outcome body" where
  "add_create e ws durationMinutes timeEntry tr =
     await tr (CreateTimeEntry ws timeEntry) (createTimeEntry e ws timeEntry) (\<lambda>tr1 entry.
       (tr1 @ [Print ''Time entry added successfully!'', Print rule_line]
          @ (case truthy_value (project_name entry) of
               Some n \<Rightarrow> [Print (''Project: '' @ n)] | None \<Rightarrow> [])
          @ [Print (''Description: '' @ or_text (description entry) ''No description''),
             Print (''Start: '' @ toLocaleString e (Date_parse e (ti_start (timeInterval entry)))),
             Print (''End: '' @ toLocaleString e (Date_of_end e (timeInterval entry))),
             Print (''Duration: '' @ formatDuration e (Some durationMinutes)),
             Print (''Billable: '' @ yes_no (billable entry)),
             Print rule_line],
        Inr Returned))"

definition add_project :: "env \<Rightarrow> string \<Rightarrow> int \<Rightarrow> options \<Rightarrow> time_entry_request \<Rightarrow> event list \<Rightarrow> outcome body" where
  "add_project e ws durationMinutes opts timeEntry tr =
     (case truthy_value (opt_project opts) of
        None \<Rightarrow> add_create e ws durationMinutes timeEntry tr
      | Some wanted \<Rightarrow>
          await tr (GetProjects ws) (getProjects e ws) (\<lambda>tr1 projects.
            case find (project_matches e wanted) projects of
              Some p \<Rightarrow>
                add_create e ws durationMinutes (timeEntry\<lparr>rq_projectId := Some (prj_id p)\<rparr>)
                  (tr1 @ [Print (''Project: '' @ prj_name p)])
            | None \<Rightarrow>
                add_create e ws durationMinutes timeEntry
                  (tr1 @ [Print (''Project '' @ wanted @ '' not found. Adding without project.'')])))"

definition add_body :: "env \<Rightarrow> string \<Rightarrow> options \<Rightarrow> outcome body" where
  "add_body e duration opts =
     (let tr0 = [Print (''Adding manual time entry: '' @ duration)] in
      if \<not> hasApiKey e
      then (tr0 @ [Print ''Not authenticated. Run: clockify auth login''], Inr (Exited 1))
      else case truthy_value (workspaceId e) of
        None \<Rightarrow> (tr0 @ [Print ''No workspace configured. Run: clockify auth status''], Inr (Exited 1))
      | Some ws \<Rightarrow>
          (case parseDuration e duration of
             Inl error \<Rightarrow> (tr0, Inl error)
           | Inr durationMinutes \<Rightarrow>
               (let tr1 = tr0 @ [Print (''Duration: '' @ formatDuration e (Some durationMinutes))];
                    (startTime, endTime) = add_times e durationMinutes opts
                in case toISOString_of e startTime of
                     Inl error \<Rightarrow> (tr1, Inl error)
                   | Inr start_iso \<Rightarrow>
                       (case toISOString_of e endTime of
                          Inl error \<Rightarrow> (tr1, Inl error)
                        | Inr end_iso \<Rightarrow>
                            add_project e ws durationMinutes opts
                              \<lparr> rq_start = start_iso,
                                rq_end = Some end_iso,
                                rq_description =
                                  (case truthy_value (opt_description opts) of
                                     Some d \<Rightarrow> sanitizeInput d | None \<Rightarrow> []),
                                rq_billable = (case opt_billable opts of Some b \<Rightarrow> b
                                               | None \<Rightarrow> billableByDefault e),
                                rq_projectId = None,
                                rq_taskId = None,
                                rq_tagIds = None \<rparr>
                              tr1))))"

definition add :: "env \<Rightarrow> string \<Rightarrow> options \<Rightarrow> outcome \<times> event list" where
  "add e duration opts = catch ''add time entry'' (add_body e duration opts)"

section \<open>edit\<close>

text \<open>
  The update request starts from the entry's current values; \<^verbatim>\<open>end\<close>,
  \<^verbatim>\<open>projectId\<close> and \<^verbatim>\<open>taskId\<close> are put in only when truthy.
\<close>

definition edit_seed :: "time_entry \<Rightarrow> time_entry_request" where
  "edit_seed targetEntry =
     \<lparr> rq_start = ti_start (timeInterval targetEntry),
       rq_end = truthy_value (ti_end (timeInterval targetEntry)),
       rq_description = or_text (description targetEntry) [],
       rq_billable = billable targetEntry,
       rq_projectId = truthy_value (projectId targetEntry),
       rq_taskId = truthy_value (taskId targetEntry),
       rq_tagIds = Some (tagIds targetEntry) \<rparr>"

text \<open>The request being built together with the list \<^verbatim>\<open>changes\<close>.\<close>

type_synonym update = "time_entry_request \<times> string list"

definition edit_description :: "options \<Rightarrow> update \<Rightarrow> update" where
  "edit_description opts u =
     (case opt_description opts of
        Some d \<Rightarrow> ((fst u)\<lparr>rq_description := sanitizeInput d\<rparr>, snd u @ [''description''])
      | None \<Rightarrow> u)"

definition edit_billable :: "options \<Rightarrow> update \<Rightarrow> update" where
  "edit_billable opts u =
     (case opt_billable opts of
        Some b \<Rightarrow> ((fst u)\<lparr>rq_billable := b\<rparr>,
                   snd u @ [if b then ''marked billable'' else ''marked non-billable''])
      | None \<Rightarrow> u)"

definition edit_project :: "env \<Rightarrow> string \<Rightarrow> options \<Rightarrow> update \<Rightarrow> event list \<Rightarrow> update body" where
  "edit_project e ws opts u tr =
     (case truthy_value (opt_project opts) of
        None \<Rightarrow> (tr, Inr u)
      | Some wanted \<Rightarrow>
          await tr (GetProjects ws) (getProjects e ws) (\<lambda>tr1 projects.
            case find (project_matches e wanted) projects of
              Some p \<Rightarrow>
                (tr1, Inr ((fst u)\<lparr>rq_projectId := Some (prj_id p)\<rparr>,
                           snd u @ [''project -> '' @ prj_name p]))
            | None \<Rightarrow>
                (tr1 @ [Print (''Project '' @ wanted @ '' not found. Keeping current project.'')],
                 Inr u)))"

definition edit_startTime :: "env \<Rightarrow> time_entry \<Rightarrow> options \<Rightarrow> update \<Rightarrow> thrown + update" where
  "edit_startTime e targetEntry opts u =
     (case truthy_value (opt_startTime opts) of
        None \<Rightarrow> Inr u
      | Some text \<Rightarrow>
          (case toISOString_of e
                  (anchor e text (Date_parse e (ti_start (timeInterval targetEntry)))) of
             Inl error \<Rightarrow> Inl error
           | Inr stamp \<Rightarrow> Inr ((fst u)\<lparr>rq_start := stamp\<rparr>, snd u @ [''start time''])))"

definition edit_endTime :: "env \<Rightarrow> time_entry \<Rightarrow> options \<Rightarrow> update \<Rightarrow> thrown + update" where
  "edit_endTime e targetEntry opts u =
     (case truthy_value (opt_endTime opts) of
        None \<Rightarrow> Inr u
      | Some text \<Rightarrow>
          (case toISOString_of e
                  (anchor e text
                     (case truthy_value (ti_end (timeInterval targetEntry)) of
                        Some s \<Rightarrow> Date_parse e s | None \<Rightarrow> Some (now e))) of
             Inl error \<Rightarrow> Inl error
           | Inr stamp \<Rightarrow> Inr ((fst u)\<lparr>rq_end := Some stamp\<rparr>, snd u @ [''end time''])))"

definition edit_build :: "env \<Rightarrow> string \<Rightarrow> time_entry \<Rightarrow> options \<Rightarrow> event list \<Rightarrow> update body" where
  "edit_build e ws targetEntry opts tr =
     (case edit_project e ws opts
             (edit_billable opts (edit_description opts (edit_seed targetEntry, []))) tr of
        (tr1, Inl error) \<Rightarrow> (tr1, Inl error)
      | (tr1, Inr u) \<Rightarrow>
          (case edit_startTime e targetEntry opts u of
             Inl error \<Rightarrow> (tr1, Inl error)
           | Inr u1 \<Rightarrow>
               (case edit_endTime e targetEntry opts u1 of
                  Inl error \<Rightarrow> (tr1, Inl error)
                | Inr u2 \<Rightarrow> (tr1, Inr u2))))"

definition edit_entry :: "env \<Rightarrow> string \<Rightarrow> time_entry \<Rightarrow> options \<Rightarrow> event list \<Rightarrow> outcome body" where
  "edit_entry e ws targetEntry opts tr =
     (case edit_build e ws targetEntry opts
             (tr @ [Print (''Editing entry: '' @ or_text (description targetEntry) ''No description'')]) of
        (tr1, Inl error) \<Rightarrow> (tr1, Inl error)
      | (tr1, Inr (updateData, changes)) \<Rightarrow>
          if length changes = 0
          then (tr1 @ [Print ''No changes specified'',
                       Print ''Use options like --description, --billable, --project, --start-time, --end-time''],
                Inr Returned)
          else
            await tr1 (UpdateTimeEntry ws (entry_id targetEntry) updateData)
              (updateTimeEntry e ws (entry_id targetEntry) updateData) (\<lambda>tr2 updatedEntry.
              (let startTime = Date_parse e (ti_start (timeInterval updatedEntry));
                   endTime = (case truthy_value (ti_end (timeInterval updatedEntry)) of
                                Some s \<Rightarrow> Some (Date_parse e s) | None \<Rightarrow> None)
               in (tr2 @ [Print ''Time entry updated successfully!'', Print rule_line,
                          Print (''Changes: '' @ join '', '' changes), Print rule_line]
                     @ (case truthy_value (project_name updatedEntry) of
                          Some n \<Rightarrow> [Print (''Project: '' @ n)] | None \<Rightarrow> [])
                     @ [Print (''Description: '' @ or_text (description updatedEntry) ''No description''),
                        Print (''Start: '' @ toLocaleString e startTime)]
                     @ (case endTime of
                          Some en \<Rightarrow>
                            [Print (''End: '' @ toLocaleString e en),
                             Print (''Duration: '' @ formatDuration e (round_minutes (num_sub en startTime)))]
                        | None \<Rightarrow> [])
                     @ [Print (''Billable: '' @ yes_no (billable updatedEntry)), Print rule_line],
                   Inr Returned))))"

text \<open>
  The target of the edit: the first completed entry for the word \<^verbatim>\<open>last\<close> in
  any letter case, the entry of that id otherwise.
\<close>

datatype target = NoCompleted | NotFound | Found time_entry

definition edit_target :: "time_entry list \<Rightarrow> string \<Rightarrow> target" where
  "edit_target entries entryId =
     (if toLowerCase entryId = ''last''
      then (case filter (\<lambda>entry. truthy (ti_end (timeInterval entry))) entries of
              [] \<Rightarrow> NoCompleted
            | targetEntry # others \<Rightarrow> Found targetEntry)
      else (case find (\<lambda>entry. entry_id entry = entryId) entries of
              None \<Rightarrow> NotFound
            | Some targetEntry \<Rightarrow> Found targetEntry))"

definition edit_body :: "env \<Rightarrow> string \<Rightarrow> options \<Rightarrow> outcome body" where
  "edit_body e entryId opts =
     (let tr0 = [Print ''Editing time entry...''] in
      if \<not> hasApiKey e
      then (tr0 @ [Print ''Not authenticated. Run: clockify auth login''], Inr (Exited 1))
      else case truthy_value (workspaceId e) of
        None \<Rightarrow> (tr0 @ [Print ''No workspace configured. Run: clockify auth status''], Inr (Exited 1))
      | Some ws \<Rightarrow>
          await tr0 GetCurrentUser (getCurrentUser e) (\<lambda>tr1 u.
          await tr1 (GetTimeEntries ws (usr_id u)) (getTimeEntries e ws (usr_id u)) (\<lambda>tr2 entries.
            case edit_target entries entryId of
              NoCompleted \<Rightarrow> (tr2 @ [Print ''No completed time entries found''], Inr Returned)
            | NotFound \<Rightarrow>
                (tr2 @ [Print (''Time entry not found: '' @ entryId),
                        Print ''Use last to edit the most recent entry''],
                 Inr Returned)
            | Found targetEntry \<Rightarrow> edit_entry e ws targetEntry opts tr2)))"

definition edit :: "env \<Rightarrow> string \<Rightarrow> options \<Rightarrow> outcome \<times> event list" where
  "edit e entryId opts = catch ''edit time entry'' (edit_body e entryId opts)"

section \<open>A sample workspace\<close>

text \<open>
  Concrete collaborators for the instances below: a workspace with two projects, a
  clock standing at 2024-01-15 10:00 UTC in a zone one hour east all year, a duration
  parser that reads a bare integer as minutes, and a runtime that knows the renderings
  of the few instants that occur and lower-cases the letters A to Z.
\<close>

definition sample_entry :: "string \<Rightarrow> string \<Rightarrow> string \<Rightarrow> string option \<Rightarrow> time_entry" where
  "sample_entry i d s en =
     \<lparr> entry_id = i, description = d, billable = True, tagIds = [''t1''],
       projectId = Some ''p1'', taskId = None,
       timeInterval = \<lparr> ti_start = s, ti_end = en, ti_end_null = True \<rparr>,
       project_name = Some ''Alpha'', task_name = None \<rparr>"

definition sample_projects :: "project list" where
  "sample_projects =
     [\<lparr> prj_id = ''p1'', prj_name = ''Alpha'' \<rparr>, \<lparr> prj_id = ''p2'', prj_name = ''Beta Works'' \<rparr>]"

definition sample_answer :: "time_entry_request \<Rightarrow> time_entry" where
  "sample_answer rq =
     \<lparr> entry_id = ''e9'', description = rq_description rq, billable = rq_billable rq,
       tagIds = (case rq_tagIds rq of Some ts \<Rightarrow> ts | None \<Rightarrow> []),
       projectId = rq_projectId rq, taskId = rq_taskId rq,
       timeInterval = \<lparr> ti_start = rq_start rq, ti_end = rq_end rq, ti_end_null = True \<rparr>,
       project_name = None, task_name = None \<rparr>"

definition sample_instants :: "(string \<times> int) list" where
  "sample_instants =
     [(''2024-01-15T08:00:00Z'', 1705305600000),
      (''2024-01-15T08:30:00Z'', 1705307400000),
      (''2024-01-15T08:31:29Z'', 1705307489000),
      (''2024-01-15T09:00:00Z'', 1705309200000),
      (''2024-01-15T09:01:29Z'', 1705309289000),
      (''2024-01-14T09:00:00Z'', 1705222800000),
      (''2024-01-14T10:00:00Z'', 1705226400000)]"

definition sample_renderings :: "(int \<times> string) list" where
  "sample_renderings =
     [(1705312800000, ''2024-01-15T10:00:00.000Z''),
      (1705309200000, ''2024-01-15T09:00:00.000Z''),
      (1705307400000, ''2024-01-15T08:30:00.000Z''),
      (1705305600000, ''2024-01-15T08:00:00.000Z''),
      (1705302000000, ''2024-01-15T07:00:00.000Z'')]"

definition sample_env :: "time_entry list \<Rightarrow> env" where
  "sample_env es =
     \<lparr> hasApiKey = True,
       workspaceId = Some ''w1'',
       billableByDefault = False,
       getCurrentUser = Inr \<lparr> usr_id = ''u1'' \<rparr>,
       getTimeEntries = (\<lambda>ws uid. Inr es),
       getProjects = (\<lambda>ws. Inr sample_projects),
       createProject = (\<lambda>ws spec. Inr \<lparr> prj_id = ''p9'', prj_name = ps_name spec \<rparr>),
       startTimer = (\<lambda>ws rq. Inr (sample_answer rq)),
       stopTimer = (\<lambda>ws uid. Inr (sample_entry ''e1'' ''Report'' ''2024-01-15T09:00:00Z''
                                      (Some ''2024-01-15T09:01:29Z''))),
       createTimeEntry = (\<lambda>ws rq. Inr (sample_answer rq)),
       updateTimeEntry = (\<lambda>ws i rq. Inr (sample_answer rq)),
       parseDuration = (\<lambda>s. if s \<noteq> [] \<and> list_all is_digit s then Inr (parseInt s)
                            else Inl (Error ''Invalid duration format'')),
       formatDuration = (\<lambda>n. case n of None \<Rightarrow> ''NaNm'' | Some m \<Rightarrow> decimal (nat m) @ ''m''),
       now = 1705312800000,
       localTZA = (\<lambda>t isUTC. 3600000),
       Date_parse = map_of sample_instants,
       toISOString = (\<lambda>t. case map_of sample_renderings t of
                               Some s \<Rightarrow> s | None \<Rightarrow> ''1970-01-01T00:00:00.000Z''),
       toLocaleString = (\<lambda>d. ''a date''),
       toLocaleTimeString = (\<lambda>d. ''a time''),
       String_toLowerCase = toLowerCase \<rparr>"

text \<open>
  The same with the zone rules of Europe/Berlin around 2024-03-31: one hour east until
  01:00 UTC of that day and two hours from then on; a local time before 03:00 of that
  day is read with the earlier offset, so that the skipped hour falls after the change.
\<close>

definition sample_berlin :: env where
  "sample_berlin =
     (sample_env [])\<lparr>localTZA :=
        (\<lambda>t isUTC. if isUTC then (if t < 1711846800000 then 3600000 else 7200000)
                   else (if t < 1711854000000 then 3600000 else 7200000))\<rparr>"

definition no_options :: options where
  "no_options =
     \<lparr> opt_description = None, opt_project = None, opt_billable = None,
       opt_startTime = None, opt_endTime = None \<rparr>"

definition sample_entries :: "time_entry list" where
  "sample_entries =
     [sample_entry ''e3'' ''Inbox'' ''2024-01-15T09:00:00Z'' None,
      sample_entry ''e2'' ''Mail'' ''2024-01-15T08:00:00Z'' (Some ''2024-01-15T08:30:00Z'')]"

definition sample_closed :: "time_entry list" where
  "sample_closed =
     [sample_entry ''e4'' ''Call'' ''2024-01-15T09:00:00Z'' (Some ''2024-01-15T09:01:29Z''),
      sample_entry ''e3'' ''Chat'' ''2024-01-15T08:30:00Z'' (Some ''2024-01-15T08:31:29Z''),
      sample_entry ''e2'' ''Mail'' ''2024-01-15T08:00:00Z'' (Some ''2024-01-15T08:30:00Z''),
      sample_entry ''e1'' ''Plan'' ''2024-01-14T09:00:00Z'' (Some ''2024-01-14T10:00:00Z'')]"

definition sample_instant :: "string \<Rightarrow> int" where
  "sample_instant s = (case map_of sample_instants s of Some t \<Rightarrow> t | None \<Rightarrow> 0)"

section \<open>The running timer\<close>

lemma find_running_open:
  assumes "\<exists>entry\<in>set es. ti_end (timeInterval entry) = None"
  shows "\<exists>r. find running es = Some r \<and> running r"
proof -
  from assms obtain x where "x \<in> set es" "running x"
    by (auto simp: running_def truthy_def)
  then have "find running es \<noteq> None" by (auto simp: find_None_iff)
  then obtain r where r: "find running es = Some r" by auto
  then have "running r" by (auto simp: find_Some_iff)
  with r show ?thesis by blast
qed

lemma sample_env_simps:
  "hasApiKey (sample_env es)"
  "workspaceId (sample_env es) = Some ''w1''"
  "getCurrentUser (sample_env es) = Inr \<lparr> usr_id = ''u1'' \<rparr>"
  "getTimeEntries (sample_env es) ws uid = Inr es"
  "getProjects (sample_env es) ws = Inr sample_projects"
  "updateTimeEntry (sample_env es) ws i rq = Inr (sample_answer rq)"
  by (simp_all add: sample_env_def)

text \<open>
  C1. When the command is authenticated, has a workspace and has fetched the user's
  entries, and some entry has no end timestamp, \<^verbatim>\<open>start\<close> reports the timer
  already running (the first entry found running) and returns; its trace holds the two
  reads and the three lines, and no call of \<^verbatim>\<open>startTimer\<close>.
\<close>

theorem start_refused_when_running:
  assumes "hasApiKey e" and "workspaceId e = Some ws" and "ws \<noteq> []"
    and "getCurrentUser e = Inr u"
    and "getTimeEntries e ws (usr_id u) = Inr es"
    and "\<exists>entry\<in>set es. ti_end (timeInterval entry) = None"
  shows "\<exists>r. find running es = Some r \<and>
           start e opts =
             (Returned,
              [Print ''Starting timer...'', Call GetCurrentUser, Call (GetTimeEntries ws (usr_id u)),
               Print ''Timer already running!'',
               Print (''Current: '' @ or_text (description r) ''No description''),
               Print ''Use clockify stop first or clockify status to see details''])
         \<and> (\<forall>w rq. Call (StartTimer w rq) \<notin> set (snd (start e opts)))"
proof -
  from find_running_open[OF assms(6)] obtain r where r: "find running es = Some r" by blast
  have "start e opts =
             (Returned,
              [Print ''Starting timer...'', Call GetCurrentUser, Call (GetTimeEntries ws (usr_id u)),
               Print ''Timer already running!'',
               Print (''Current: '' @ or_text (description r) ''No description''),
               Print ''Use clockify stop first or clockify status to see details''])"
    using assms(1-5) r
    by (simp add: start_def start_body_def await_def catch_def truthy_value_def)
  with r show ?thesis by simp
qed

theorem start_refused_when_running_witness:
  "start (sample_env [sample_entry ''e2'' ''Mail'' ''2024-01-15T08:00:00Z'' (Some ''2024-01-15T08:30:00Z''),
                      sample_entry ''e1'' ''Report'' ''2024-01-15T09:00:00Z'' None]) no_options =
     (Returned,
      [Print ''Starting timer...'', Call GetCurrentUser, Call (GetTimeEntries ''w1'' ''u1''),
       Print ''Timer already running!'', Print ''Current: Report'',
       Print ''Use clockify stop first or clockify status to see details''])"
proof -
  let ?es = "[sample_entry ''e2'' ''Mail'' ''2024-01-15T08:00:00Z'' (Some ''2024-01-15T08:30:00Z''),
              sample_entry ''e1'' ''Report'' ''2024-01-15T09:00:00Z'' None]"
  let ?e = "sample_env ?es"
  have h1: "hasApiKey ?e" by (simp add: sample_env_def)
  have h2: "workspaceId ?e = Some ''w1''" by (simp add: sample_env_def)
  have h3: "''w1'' \<noteq> []" by simp
  have h4: "getCurrentUser ?e = Inr \<lparr> usr_id = ''u1'' \<rparr>" by (simp add: sample_env_def)
  have h5: "getTimeEntries ?e ''w1'' (usr_id \<lparr> usr_id = ''u1'' \<rparr>) = Inr ?es"
    by (simp add: sample_env_def)
  have h6: "\<exists>entry\<in>set ?es. ti_end (timeInterval entry) = None"
    by (simp add: sample_entry_def)
  have f: "find running ?es = Some (sample_entry ''e1'' ''Report'' ''2024-01-15T09:00:00Z'' None)"
    by (simp add: running_def truthy_def sample_entry_def)
  from start_refused_when_running[OF h1 h2 h3 h4 h5 h6, of no_options]
  obtain r where rf: "find running ?es = Some r"
    and st: "start ?e no_options =
       (Returned,
        [Print ''Starting timer...'', Call GetCurrentUser,
         Call (GetTimeEntries ''w1'' (usr_id \<lparr> usr_id = ''u1'' \<rparr>)),
         Print ''Timer already running!'',
         Print (''Current: '' @ or_text (description r) ''No description''),
         Print ''Use clockify stop first or clockify status to see details''])"
    by blast
  from rf f have req: "r = sample_entry ''e1'' ''Report'' ''2024-01-15T09:00:00Z'' None"
    by simp
  from st[unfolded req] show ?thesis by (simp add: or_text_def sample_entry_def)
qed

section \<open>Editing an entry\<close>

lemma sanitize_x: "sanitizeInput ''x'' = ''x''"
  by (simp add: sanitizeInput_def is_control_def)

lemma find_by_filter:
  "find P xs = (case filter P xs of [] \<Rightarrow> None | x # rest \<Rightarrow> Some x)"
  by (induction xs) simp_all

lemma edit_reaches_entry:
  assumes "hasApiKey e" and "workspaceId e = Some ws" and "ws \<noteq> []"
    and "getCurrentUser e = Inr u"
    and "getTimeEntries e ws (usr_id u) = Inr es"
    and "edit_target es entryId = Found existing"
  shows "edit e entryId opts =
           catch ''edit time entry''
             (edit_entry e ws existing opts
                [Print ''Editing time entry...'', Call GetCurrentUser,
                 Call (GetTimeEntries ws (usr_id u))])"
  using assms by (simp add: edit_def edit_body_def await_def truthy_value_def)

lemma edit_build_description_only:
  "edit_build e ws existing (no_options\<lparr>opt_description := Some ''x''\<rparr>) tr =
     (tr, Inr ((edit_seed existing)\<lparr>rq_description := ''x''\<rparr>, [''description'']))"
  by (simp add: edit_build_def edit_project_def edit_billable_def edit_description_def
      edit_startTime_def edit_endTime_def no_options_def truthy_value_def sanitize_x)

lemma edit_entry_no_options:
  "edit_entry e ws existing no_options tr =
     (tr @ [Print (''Editing entry: '' @ or_text (description existing) ''No description''),
            Print ''No changes specified'',
            Print ''Use options like --description, --billable, --project, --start-time, --end-time''],
      Inr Returned)"
  by (simp add: edit_entry_def edit_build_def edit_project_def edit_billable_def edit_description_def
      edit_startTime_def edit_endTime_def no_options_def truthy_value_def)

lemma edit_never_updates:
  "Call (UpdateTimeEntry w i rq) \<notin> set (snd (edit e entryId no_options))"
  by (auto simp: edit_def edit_body_def catch_def await_def edit_entry_no_options Let_def
      split: option.splits sum.splits target.splits)

lemma sample_target: "edit_target sample_entries ''e2'' =
   Found (sample_entry ''e2'' ''Mail'' ''2024-01-15T08:00:00Z'' (Some ''2024-01-15T08:30:00Z''))"
  by (simp add: edit_target_def sample_entries_def sample_entry_def toLowerCase_def toLowerChar_def)

text \<open>
  C2. For every existing entry that \<^verbatim>\<open>edit\<close> has located, the only override
  being the description \<^verbatim>\<open>x\<close>: the request built has the description
  \<^verbatim>\<open>x\<close>, the entry's own start, billable flag and tag ids, and its end, project id
  and task id when those are present (a non-empty value; they are left out otherwise);
  the list of changes is the one word \<^verbatim>\<open>description\<close>; and this request is
  what the command hands to \<^verbatim>\<open>updateTimeEntry\<close>.
\<close>

theorem edit_description_only:
  assumes "hasApiKey e" and "workspaceId e = Some ws" and "ws \<noteq> []"
    and "getCurrentUser e = Inr u"
    and "getTimeEntries e ws (usr_id u) = Inr es"
    and "edit_target es entryId = Found existing"
    and "payload =
          \<lparr> rq_start = ti_start (timeInterval existing),
            rq_end = truthy_value (ti_end (timeInterval existing)),
            rq_description = ''x'',
            rq_billable = billable existing,
            rq_projectId = truthy_value (projectId existing),
            rq_taskId = truthy_value (taskId existing),
            rq_tagIds = Some (tagIds existing) \<rparr>"
  shows "edit_build e ws existing (no_options\<lparr>opt_description := Some ''x''\<rparr>) tr
           = (tr, Inr (payload, [''description'']))
         \<and> (\<exists>rest. snd (edit e entryId (no_options\<lparr>opt_description := Some ''x''\<rparr>)) =
               [Print ''Editing time entry...'', Call GetCurrentUser,
                Call (GetTimeEntries ws (usr_id u)),
                Print (''Editing entry: '' @ or_text (description existing) ''No description''),
                Call (UpdateTimeEntry ws (entry_id existing) payload)] @ rest)"
proof -
  let ?opts = "no_options\<lparr>opt_description := Some ''x''\<rparr>"
  let ?pre = "[Print ''Editing time entry...'', Call GetCurrentUser,
               Call (GetTimeEntries ws (usr_id u))]"
  have p: "payload = (edit_seed existing)\<lparr>rq_description := ''x''\<rparr>"
    by (simp add: assms(7) edit_seed_def)
  have b: "\<And>t. edit_build e ws existing ?opts t = (t, Inr (payload, [''description'']))"
    unfolding p by (rule edit_build_description_only)
  have "\<exists>rest. snd (catch ''edit time entry'' (edit_entry e ws existing ?opts ?pre)) =
          ?pre @ [Print (''Editing entry: '' @ or_text (description existing) ''No description''),
                  Call (UpdateTimeEntry ws (entry_id existing) payload)] @ rest"
    by (cases "updateTimeEntry e ws (entry_id existing) payload")
       (simp_all add: edit_entry_def b await_def catch_def Let_def)
  then have "\<exists>rest. snd (edit e entryId ?opts) =
       ?pre @ [Print (''Editing entry: '' @ or_text (description existing) ''No description''),
               Call (UpdateTimeEntry ws (entry_id existing) payload)] @ rest"
    using edit_reaches_entry[OF assms(1-6)] by simp
  with b[of tr] show ?thesis by simp
qed

theorem edit_description_only_witness:
  "\<exists>rest. snd (edit (sample_env sample_entries) ''e2'' (no_options\<lparr>opt_description := Some ''x''\<rparr>)) =
     [Print ''Editing time entry...'', Call GetCurrentUser, Call (GetTimeEntries ''w1'' ''u1''),
      Print ''Editing entry: Mail'',
      Call (UpdateTimeEntry ''w1'' ''e2''
        \<lparr> rq_start = ''2024-01-15T08:00:00Z'', rq_end = Some ''2024-01-15T08:30:00Z'',
          rq_description = ''x'', rq_billable = True, rq_projectId = Some ''p1'',
          rq_taskId = None, rq_tagIds = Some [''t1''] \<rparr>)] @ rest"
proof -
  have n: "''w1'' \<noteq> []" by simp
  from edit_description_only[where tr = "[]", OF sample_env_simps(1) sample_env_simps(2) n
      sample_env_simps(3) sample_env_simps(4) sample_target refl]
  show ?thesis
    by (simp add: sample_entry_def or_text_def truthy_value_def)
qed

text \<open>
  C3. With no override given, \<^verbatim>\<open>edit\<close> reports that no changes were specified
  once it has located the entry, and returns; whatever the collaborators answer, its
  trace holds no call of \<^verbatim>\<open>updateTimeEntry\<close>.
\<close>

theorem edit_without_overrides:
  "edit_entry e ws existing no_options tr =
     (tr @ [Print (''Editing entry: '' @ or_text (description existing) ''No description''),
            Print ''No changes specified'',
            Print ''Use options like --description, --billable, --project, --start-time, --end-time''],
      Inr Returned)
   \<and> (\<forall>w i rq. Call (UpdateTimeEntry w i rq) \<notin> set (snd (edit e entryId no_options)))
   \<and> (hasApiKey e \<and> workspaceId e = Some ws \<and> ws \<noteq> [] \<and> getCurrentUser e = Inr u
        \<and> getTimeEntries e ws (usr_id u) = Inr es \<and> edit_target es entryId = Found existing
      \<longrightarrow> edit e entryId no_options =
            (Returned,
             [Print ''Editing time entry...'', Call GetCurrentUser,
              Call (GetTimeEntries ws (usr_id u)),
              Print (''Editing entry: '' @ or_text (description existing) ''No description''),
              Print ''No changes specified'',
              Print ''Use options like --description, --billable, --project, --start-time, --end-time'']))"
proof (intro conjI impI allI)
  show "edit_entry e ws existing no_options tr =
     (tr @ [Print (''Editing entry: '' @ or_text (description existing) ''No description''),
            Print ''No changes specified'',
            Print ''Use options like --description, --billable, --project, --start-time, --end-time''],
      Inr Returned)"
    by (rule edit_entry_no_options)
next
  fix w i rq
  show "Call (UpdateTimeEntry w i rq) \<notin> set (snd (edit e entryId no_options))"
    by (rule edit_never_updates)
next
  assume a: "hasApiKey e \<and> workspaceId e = Some ws \<and> ws \<noteq> [] \<and> getCurrentUser e = Inr u
        \<and> getTimeEntries e ws (usr_id u) = Inr es \<and> edit_target es entryId = Found existing"
  then have "edit e entryId no_options =
           catch ''edit time entry''
             (edit_entry e ws existing no_options
                [Print ''Editing time entry...'', Call GetCurrentUser,
                 Call (GetTimeEntries ws (usr_id u))])"
    using edit_reaches_entry[of e ws u es entryId existing no_options] by simp
  then show "edit e entryId no_options =
            (Returned,
             [Print ''Editing time entry...'', Call GetCurrentUser,
              Call (GetTimeEntries ws (usr_id u)),
              Print (''Editing entry: '' @ or_text (description existing) ''No description''),
              Print ''No changes specified'',
              Print ''Use options like --description, --billable, --project, --start-time, --end-time''])"
    by (simp add: edit_entry_no_options catch_def)
qed

theorem edit_without_overrides_witness:
  "edit (sample_env sample_entries) ''e2'' no_options =
     (Returned,
      [Print ''Editing time entry...'', Call GetCurrentUser, Call (GetTimeEntries ''w1'' ''u1''),
       Print ''Editing entry: Mail'', Print ''No changes specified'',
       Print ''Use options like --description, --billable, --project, --start-time, --end-time''])"
  using edit_without_overrides[where e = "sample_env sample_entries" and ws = "''w1''"
      and entryId = "''e2''" and u = "\<lparr> usr_id = ''u1'' \<rparr>" and es = sample_entries]
  by (simp add: sample_env_simps sample_target sample_entry_def or_text_def)

text \<open>
  C9. When the only override is a project text that matches no project of the
  workspace (the lower-cased text is in no lower-cased name, and is no id),
  \<^verbatim>\<open>edit\<close> warns that the project was not found, adds nothing to the
  list of changes, reports that no changes were specified and returns without a call of
  \<^verbatim>\<open>updateTimeEntry\<close>.
\<close>

theorem edit_unmatched_project_only:
  assumes "hasApiKey e" and "workspaceId e = Some ws" and "ws \<noteq> []"
    and "getCurrentUser e = Inr u"
    and "getTimeEntries e ws (usr_id u) = Inr es"
    and "edit_target es entryId = Found existing"
    and "p \<noteq> []"
    and "getProjects e ws = Inr ps"
    and "\<forall>q\<in>set ps. \<not> project_matches e p q"
  shows "edit e entryId (no_options\<lparr>opt_project := Some p\<rparr>) =
           (Returned,
            [Print ''Editing time entry...'', Call GetCurrentUser,
             Call (GetTimeEntries ws (usr_id u)),
             Print (''Editing entry: '' @ or_text (description existing) ''No description''),
             Call (GetProjects ws),
             Print (''Project '' @ p @ '' not found. Keeping current project.''),
             Print ''No changes specified'',
             Print ''Use options like --description, --billable, --project, --start-time, --end-time''])"
proof -
  from assms(9) have "find (project_matches e p) ps = None"
    by (simp add: find_None_iff)
  then have "edit_entry e ws existing (no_options\<lparr>opt_project := Some p\<rparr>)
               [Print ''Editing time entry...'', Call GetCurrentUser,
                Call (GetTimeEntries ws (usr_id u))] =
             ([Print ''Editing time entry...'', Call GetCurrentUser,
               Call (GetTimeEntries ws (usr_id u)),
               Print (''Editing entry: '' @ or_text (description existing) ''No description''),
               Call (GetProjects ws),
               Print (''Project '' @ p @ '' not found. Keeping current project.''),
               Print ''No changes specified'',
               Print ''Use options like --description, --billable, --project, --start-time, --end-time''],
              Inr Returned)"
    using assms(7,8)
    by (simp add: edit_entry_def edit_build_def edit_project_def edit_billable_def
        edit_description_def edit_startTime_def edit_endTime_def no_options_def
        truthy_value_def await_def)
  with edit_reaches_entry[OF assms(1-6)] show ?thesis
    by (simp add: catch_def)
qed

lemma sample_no_gamma:
  "\<forall>q\<in>set sample_projects. \<not> project_matches (sample_env es) ''gamma'' q"
  by (simp add: sample_projects_def project_matches_def str_includes_def toLowerCase_def
      toLowerChar_def sublist_code prefix_code sample_env_def)

theorem edit_unmatched_project_only_witness:
  "edit (sample_env sample_entries) ''e2'' (no_options\<lparr>opt_project := Some ''gamma''\<rparr>) =
     (Returned,
      [Print ''Editing time entry...'', Call GetCurrentUser, Call (GetTimeEntries ''w1'' ''u1''),
       Print ''Editing entry: Mail'', Call (GetProjects ''w1''),
       Print ''Project gamma not found. Keeping current project.'',
       Print ''No changes specified'',
       Print ''Use options like --description, --billable, --project, --start-time, --end-time''])"
  using edit_unmatched_project_only[of "sample_env sample_entries" "''w1''"
      "\<lparr> usr_id = ''u1'' \<rparr>" sample_entries "''e2''" _ "''gamma''" sample_projects]
  by (simp add: sample_env_simps sample_target sample_no_gamma sample_entry_def or_text_def)

text \<open>
  C4, as amended. An entry id that is not the word \<^verbatim>\<open>last\<close> in any letter case
  and is the id of no fetched entry makes \<^verbatim>\<open>edit\<close> report that the entry was
  not found and return, with no write. The word \<^verbatim>\<open>last\<close> in any letter case
  targets the first fetched entry whose end is truthy; when there is none the command
  reports that no completed entries were found and returns.
\<close>

theorem edit_target_not_found:
  assumes "hasApiKey e" and "workspaceId e = Some ws" and "ws \<noteq> []"
    and "getCurrentUser e = Inr u"
    and "getTimeEntries e ws (usr_id u) = Inr es"
  shows "(toLowerCase entryId \<noteq> ''last'' \<and> (\<forall>entry\<in>set es. entry_id entry \<noteq> entryId) \<longrightarrow>
            edit e entryId opts =
              (Returned,
               [Print ''Editing time entry...'', Call GetCurrentUser,
                Call (GetTimeEntries ws (usr_id u)),
                Print (''Time entry not found: '' @ entryId),
                Print ''Use last to edit the most recent entry'']))
       \<and> (toLowerCase entryId = ''last'' \<longrightarrow>
            (case find (\<lambda>entry. truthy (ti_end (timeInterval entry))) es of
               None \<Rightarrow>
                 edit e entryId opts =
                   (Returned,
                    [Print ''Editing time entry...'', Call GetCurrentUser,
                     Call (GetTimeEntries ws (usr_id u)),
                     Print ''No completed time entries found''])
             | Some completed \<Rightarrow>
                 edit_target es entryId = Found completed
                 \<and> edit e entryId opts =
                     catch ''edit time entry''
                       (edit_entry e ws completed opts
                          [Print ''Editing time entry...'', Call GetCurrentUser,
                           Call (GetTimeEntries ws (usr_id u))])))"
proof (intro conjI impI)
  assume a: "toLowerCase entryId \<noteq> ''last'' \<and> (\<forall>entry\<in>set es. entry_id entry \<noteq> entryId)"
  then have "find (\<lambda>entry. entry_id entry = entryId) es = None"
    by (simp add: find_None_iff)
  with a have "edit_target es entryId = NotFound"
    by (simp add: edit_target_def)
  with assms show "edit e entryId opts =
              (Returned,
               [Print ''Editing time entry...'', Call GetCurrentUser,
                Call (GetTimeEntries ws (usr_id u)),
                Print (''Time entry not found: '' @ entryId),
                Print ''Use last to edit the most recent entry''])"
    by (simp add: edit_def edit_body_def await_def catch_def truthy_value_def)
next
  assume l: "toLowerCase entryId = ''last''"
  show "case find (\<lambda>entry. truthy (ti_end (timeInterval entry))) es of
               None \<Rightarrow>
                 edit e entryId opts =
                   (Returned,
                    [Print ''Editing time entry...'', Call GetCurrentUser,
                     Call (GetTimeEntries ws (usr_id u)),
                     Print ''No completed time entries found''])
             | Some completed \<Rightarrow>
                 edit_target es entryId = Found completed
                 \<and> edit e entryId opts =
                     catch ''edit time entry''
                       (edit_entry e ws completed opts
                          [Print ''Editing time entry...'', Call GetCurrentUser,
                           Call (GetTimeEntries ws (usr_id u))])"
  proof (cases "find (\<lambda>entry. truthy (ti_end (timeInterval entry))) es")
    case None
    then have "edit_target es entryId = NoCompleted"
      using l by (simp add: edit_target_def find_by_filter split: list.splits)
    with assms None show ?thesis
      by (simp add: edit_def edit_body_def await_def catch_def truthy_value_def)
  next
    case (Some completed)
    then have t: "edit_target es entryId = Found completed"
      using l by (simp add: edit_target_def find_by_filter split: list.splits)
    with edit_reaches_entry[OF assms t] Some show ?thesis by simp
  qed
qed

theorem edit_target_not_found_witness:
  "edit (sample_env sample_entries) ''e7'' (no_options\<lparr>opt_description := Some ''x''\<rparr>) =
     (Returned,
      [Print ''Editing time entry...'', Call GetCurrentUser, Call (GetTimeEntries ''w1'' ''u1''),
       Print ''Time entry not found: e7'', Print ''Use last to edit the most recent entry''])
   \<and> edit_target sample_entries ''last'' =
       Found (sample_entry ''e2'' ''Mail'' ''2024-01-15T08:00:00Z'' (Some ''2024-01-15T08:30:00Z''))"
  using edit_target_not_found[where e = "sample_env sample_entries" and ws = "''w1''"
      and entryId = "''e7''" and u = "\<lparr> usr_id = ''u1'' \<rparr>" and es = sample_entries
      and opts = "no_options\<lparr>opt_description := Some ''x''\<rparr>"]
    edit_target_not_found[where e = "sample_env sample_entries" and ws = "''w1''"
      and entryId = "''last''" and u = "\<lparr> usr_id = ''u1'' \<rparr>" and es = sample_entries
      and opts = "no_options\<lparr>opt_description := Some ''x''\<rparr>"]
  by (simp add: sample_env_simps sample_entries_def sample_entry_def toLowerCase_def
      toLowerChar_def truthy_def)

text \<open>
  The claim as first stated fails for the id \<^verbatim>\<open>LAST\<close>: it is not the string
  \<^verbatim>\<open>last\<close> and not the id of an entry, yet the command edits the last completed
  entry, since the id is lower-cased before it is compared.
\<close>

theorem edit_last_any_case_counterexample:
  "''LAST'' \<noteq> ''last''
   \<and> ''LAST'' \<notin> entry_id ` set sample_entries
   \<and> edit (sample_env sample_entries) ''LAST'' (no_options\<lparr>opt_description := Some ''x''\<rparr>) =
     (Returned,
      [Print ''Editing time entry...'', Call GetCurrentUser, Call (GetTimeEntries ''w1'' ''u1''),
       Print ''Editing entry: Mail'',
       Call (UpdateTimeEntry ''w1'' ''e2''
         \<lparr> rq_start = ''2024-01-15T08:00:00Z'', rq_end = Some ''2024-01-15T08:30:00Z'',
           rq_description = ''x'', rq_billable = True, rq_projectId = Some ''p1'',
           rq_taskId = None, rq_tagIds = Some [''t1''] \<rparr>),
       Print ''Time entry updated successfully!'',
       Print rule_line,
       Print ''Changes: description'',
       Print rule_line,
       Print ''Description: x'', Print ''Start: a date'', Print ''End: a date'',
       Print ''Duration: 30m'', Print ''Billable: Yes'',
       Print rule_line])"
  by (simp add: edit_def edit_body_def edit_target_def edit_entry_def edit_build_def
      edit_project_def edit_billable_def edit_description_def edit_startTime_def edit_endTime_def
      edit_seed_def await_def catch_def truthy_value_def truthy_def or_text_def
      sample_env_def sample_entries_def sample_entry_def sample_answer_def sample_instants_def
      no_options_def toLowerCase_def toLowerChar_def sanitize_x yes_no_def
      num_sub_def round_minutes_def digit_char_def Let_def)

section \<open>The summary of today\<close>

lemma round_minutes_nearest:
  "round_minutes (Some d) = Some (round (real_of_int d / 60000))"
proof -
  have "real_of_int d / 60000 + 1 / 2 = real_of_int (d + 30000) / real_of_int 60000"
    by (simp add: field_simps)
  then have "\<lfloor>real_of_int d / 60000 + 1 / 2\<rfloor> = (d + 30000) div 60000"
    by (simp only: floor_divide_of_int_eq)
  then show ?thesis by (simp add: round_minutes_def round_def)
qed

lemma totalMinutes_foldl:
  assumes "\<forall>x\<in>set xs. Date_parse e (ti_start (timeInterval x)) = Some (s x)
             \<and> (\<exists>t. ti_end (timeInterval x) = Some t \<and> Date_parse e t = Some (en x))"
  shows "foldl (\<lambda>total entry. num_add total (entry_minutes e entry)) (Some a) xs =
           Some (a + (\<Sum>x\<leftarrow>xs. round (real_of_int (en x - s x) / 60000)))"
  using assms
proof (induction xs arbitrary: a)
  case Nil
  then show ?case by simp
next
  case (Cons x xs)
  from Cons.prems obtain t where
    x: "Date_parse e (ti_start (timeInterval x)) = Some (s x)"
       "ti_end (timeInterval x) = Some t" "Date_parse e t = Some (en x)"
    by auto
  have "entry_minutes e x = Some (round (real_of_int (en x - s x) / 60000))"
    using x by (simp add: entry_minutes_def Date_of_end_def num_sub_def round_minutes_nearest)
  then show ?case using Cons by (simp add: num_add_def add.assoc)
qed

lemma find_running_none:
  "find running es = None \<longleftrightarrow> (\<forall>entry\<in>set es. truthy (ti_end (timeInterval entry)))"
  by (auto simp: find_None_iff running_def)

text \<open>
  C5. When \<^verbatim>\<open>status\<close> finds no running entry it reports that no timer is
  running. The entries of today are the fetched entries whose start has the date part
  (the text before the T) of the clock's ISO rendering; all of them are closed. When
  there is at least one and their timestamps parse, the total shown is the sum over
  them of the minutes of each, \<^verbatim>\<open>(end - start) / 60000\<close> rounded to the nearest
  integer entry by entry.
\<close>

theorem status_idle_summary:
  assumes "hasApiKey e" and "workspaceId e = Some ws" and "ws \<noteq> []"
    and "getCurrentUser e = Inr u"
    and "getTimeEntries e ws (usr_id u) = Inr es"
    and "find running es = None"
    and "today = todayEntries e es"
    and "\<forall>x\<in>set today. Date_parse e (ti_start (timeInterval x)) = Some (s x)
             \<and> (\<exists>t. ti_end (timeInterval x) = Some t \<and> Date_parse e t = Some (en x))"
  shows "status e =
           (Returned,
            [Print ''Checking timer status...'', Call GetCurrentUser,
             Call (GetTimeEntries ws (usr_id u)),
             Print ''No timer currently running'',
             Print ''Use clockify start to begin tracking time'']
            @ (if today = [] then []
               else [Print ''Todays Summary:'',
                     Print (''   '' @ decimal (length today) @ '' entries - ''
                            @ formatDuration e
                                (Some (\<Sum>x\<leftarrow>today. round (real_of_int (en x - s x) / 60000)))
                            @ '' total'')]))
         \<and> today = filter (\<lambda>entry. split_T_first (ti_start (timeInterval entry))
                                      = split_T_first (toISOString e (now e))) es"
proof -
  have t: "totalMinutes e today = Some (\<Sum>x\<leftarrow>today. round (real_of_int (en x - s x) / 60000))"
    using totalMinutes_foldl[OF assms(8), of 0] by (simp add: totalMinutes_def)
  have "status e =
           (Returned,
            [Print ''Checking timer status...'', Call GetCurrentUser,
             Call (GetTimeEntries ws (usr_id u)),
             Print ''No timer currently running'',
             Print ''Use clockify start to begin tracking time'']
            @ (if today = [] then []
               else [Print ''Todays Summary:'',
                     Print (''   '' @ decimal (length today) @ '' entries - ''
                            @ formatDuration e (totalMinutes e today)
                            @ '' total'')]))"
    using assms(1-6) unfolding assms(7)
    by (simp add: status_def status_body_def await_def catch_def truthy_value_def)
  moreover have "today = filter (\<lambda>entry. split_T_first (ti_start (timeInterval entry))
                                      = split_T_first (toISOString e (now e))) es"
    using assms(6) unfolding assms(7) todayEntries_def Let_def find_running_none
    by (intro filter_cong) auto
  ultimately show ?thesis using t by simp
qed


lemma sample_today:
  "todayEntries (sample_env sample_closed) sample_closed =
     [sample_entry ''e4'' ''Call'' ''2024-01-15T09:00:00Z'' (Some ''2024-01-15T09:01:29Z''),
      sample_entry ''e3'' ''Chat'' ''2024-01-15T08:30:00Z'' (Some ''2024-01-15T08:31:29Z''),
      sample_entry ''e2'' ''Mail'' ''2024-01-15T08:00:00Z'' (Some ''2024-01-15T08:30:00Z'')]"
  by (simp add: todayEntries_def sample_closed_def sample_entry_def sample_env_def
      sample_renderings_def split_T_first_def truthy_def)

theorem status_idle_summary_witness:
  "status (sample_env sample_closed) =
     (Returned,
      [Print ''Checking timer status...'', Call GetCurrentUser, Call (GetTimeEntries ''w1'' ''u1''),
       Print ''No timer currently running'', Print ''Use clockify start to begin tracking time'',
       Print ''Todays Summary:'', Print ''   3 entries - 32m total''])"
proof -
  let ?e = "sample_env sample_closed"
  have n: "''w1'' \<noteq> []" by simp
  have f: "find running sample_closed = None"
    by (simp add: sample_closed_def sample_entry_def running_def truthy_def)
  have p: "\<forall>x\<in>set (todayEntries ?e sample_closed).
             Date_parse ?e (ti_start (timeInterval x)) = Some (sample_instant (ti_start (timeInterval x)))
             \<and> (\<exists>t. ti_end (timeInterval x) = Some t
                  \<and> Date_parse ?e t = Some (sample_instant (case ti_end (timeInterval x) of Some t \<Rightarrow> t | None \<Rightarrow> [])))"
    unfolding sample_today
    by (simp add: sample_entry_def sample_env_def sample_instant_def sample_instants_def)
  from status_idle_summary[OF sample_env_simps(1) sample_env_simps(2) n sample_env_simps(3)
      sample_env_simps(4) f refl p]
  have w: "status (sample_env sample_closed) =
  (Returned,
   [Print ''Checking timer status...'', Call GetCurrentUser,
    Call (GetTimeEntries ''w1'' (usr_id \<lparr>usr_id = ''u1''\<rparr>)), Print ''No timer currently running'',
    Print ''Use clockify start to begin tracking time''] @
   (if todayEntries (sample_env sample_closed) sample_closed = [] then []
    else [Print ''Todays Summary:'',
          Print
           (''   '' @
            decimal (length (todayEntries (sample_env sample_closed) sample_closed)) @
            '' entries - '' @
            formatDuration (sample_env sample_closed)
             (Some
               (\<Sum>x\<leftarrow>todayEntries (sample_env sample_closed) sample_closed. round
                                 (real_of_int
                                   (sample_instant
                                     (case ti_end (timeInterval x) of None \<Rightarrow> []
                                      | Some t \<Rightarrow> t) -
                                    sample_instant (ti_start (timeInterval x))) /
                                  60000))) @
            '' total'')]))" by simp
  have s: "(\<Sum>x\<leftarrow>todayEntries (sample_env sample_closed) sample_closed. round
                                 (real_of_int
                                   (sample_instant
                                     (case ti_end (timeInterval x) of None \<Rightarrow> []
                                      | Some t \<Rightarrow> t) -
                                    sample_instant (ti_start (timeInterval x))) /
                                  60000)) = 32"
    unfolding sample_today
    by (simp add: sample_entry_def sample_instant_def sample_instants_def round_def)
  have fd: "formatDuration (sample_env sample_closed) (Some 32) = ''32m''"
    by (simp add: sample_env_def digit_char_def)
  show ?thesis
    unfolding w s fd unfolding sample_today
    by (simp add: digit_char_def)
qed

section \<open>Adding an entry\<close>

lemma add_reaches_project:
  assumes "hasApiKey e" and "workspaceId e = Some ws" and "ws \<noteq> []"
    and "parseDuration e duration = Inr d"
    and "add_times e d opts = (Some s, Some en)"
  shows "add e duration opts =
           catch ''add time entry''
             (add_project e ws d opts
                \<lparr> rq_start = toISOString e s,
                  rq_end = Some (toISOString e en),
                  rq_description =
                    (case truthy_value (opt_description opts) of
                       Some t \<Rightarrow> sanitizeInput t | None \<Rightarrow> []),
                  rq_billable = (case opt_billable opts of Some b \<Rightarrow> b
                                 | None \<Rightarrow> billableByDefault e),
                  rq_projectId = None, rq_taskId = None, rq_tagIds = None \<rparr>
                [Print (''Adding manual time entry: '' @ duration),
                 Print (''Duration: '' @ formatDuration e (Some d))])"
  using assms
  by (simp add: add_def add_body_def truthy_value_def toISOString_of_def)

lemma add_invalid_start:
  assumes "hasApiKey e" and "workspaceId e = Some ws" and "ws \<noteq> []"
    and "parseDuration e duration = Inr d"
    and "fst (add_times e d opts) = None"
  shows "add e duration opts =
           (Exited 1,
            [Print (''Adding manual time entry: '' @ duration),
             Print (''Duration: '' @ formatDuration e (Some d)),
             Print ''Failed to add time entry: Invalid time value''])"
  using assms
  by (cases "add_times e d opts")
     (simp add: add_def add_body_def truthy_value_def toISOString_of_def catch_def
        error_message_def)

lemma add_project_created:
  assumes "\<forall>w rq. Call (CreateTimeEntry w rq) \<notin> set tr"
    and "Call (CreateTimeEntry w rq) \<in> set (snd (catch what (add_project e ws d opts timeEntry tr)))"
  shows "w = ws \<and> rq_start rq = rq_start timeEntry \<and> rq_end rq = rq_end timeEntry"
  using assms
  by (auto simp: add_project_def add_create_def await_def catch_def
      split: option.splits sum.splits if_splits)

lemma add_project_creates:
  assumes "\<not> truthy (opt_project opts)"
  shows "Call (CreateTimeEntry ws timeEntry) \<in> set (snd (catch what (add_project e ws d opts timeEntry tr)))"
  using assms
  by (auto simp: add_project_def add_create_def await_def catch_def truthy_def truthy_value_def
      split: option.splits sum.splits if_splits)

lemma add_calls:
  assumes "hasApiKey e" and "workspaceId e = Some ws" and "ws \<noteq> []"
    and "parseDuration e duration = Inr d"
    and "add_times e d opts = (Some s, Some en)"
  shows "(\<forall>w rq. Call (CreateTimeEntry w rq) \<in> set (snd (add e duration opts)) \<longrightarrow>
            rq_start rq = toISOString e s \<and> rq_end rq = Some (toISOString e en))
       \<and> (\<not> truthy (opt_project opts) \<longrightarrow>
            (\<exists>rq. Call (CreateTimeEntry ws rq) \<in> set (snd (add e duration opts))))"
proof (intro conjI allI impI)
  note r = add_reaches_project[OF assms]
  fix w rq
  assume "Call (CreateTimeEntry w rq) \<in> set (snd (add e duration opts))"
  then show "rq_start rq = toISOString e s" and "rq_end rq = Some (toISOString e en)"
    unfolding r by (auto dest!: add_project_created[rotated])
next
  note r = add_reaches_project[OF assms]
  assume "\<not> truthy (opt_project opts)"
  then show "\<exists>rq. Call (CreateTimeEntry ws rq) \<in> set (snd (add e duration opts))"
    unfolding r by (blast intro: add_project_creates)
qed

lemma sample_env_more:
  "parseDuration (sample_env es) ''60'' = Inr 60"
  "parseDuration (sample_env es) ''200000000000'' = Inr 200000000000"
  "now (sample_env es) = 1705312800000"
  "localTZA (sample_env es) = (\<lambda>t isUTC. 3600000)"
  "toISOString (sample_env es) 1705312800000 = ''2024-01-15T10:00:00.000Z''"
  "toISOString (sample_env es) 1705309200000 = ''2024-01-15T09:00:00.000Z''"
  "toISOString (sample_env es) 1705305600000 = ''2024-01-15T08:00:00.000Z''"
  "toISOString (sample_env es) 1705302000000 = ''2024-01-15T07:00:00.000Z''"
  by (simp_all add: sample_env_def sample_renderings_def is_digit_def parseInt_def digit_value_def)

lemma sample_anchor:
  "anchor (sample_env es) ''08:00'' (Some 1705312800000) = Some 1705302000000"
  "anchor (sample_env es) ''09:30'' (Some 1705312800000) = Some 1705307400000"
  "anchor (sample_env es) ''24:30'' (Some 1705312800000) = Some 1705361400000"
  by (simp_all add: anchor_def setHours_def localDay_def localTime_def parseInt_def
      digit_value_def is_digit_def msPerDay_def sample_env_more timeClip_def maxTime_def)

text \<open>
  C6, as amended. For a duration that \<^verbatim>\<open>parseDuration\<close> reads as d minutes,
  the clock reading a valid date:
  without a start-time option, and with the instant d minutes before the clock's reading
  still a valid date (within 8.64e15 ms of the epoch), \<^verbatim>\<open>add\<close> takes the
  clock's reading as the end and d minutes before it as the start, so that end minus
  start is d minutes exactly; with a start-time that resolves to an instant, and the
  instant d minutes after it still a valid date, it takes that instant as the start and
  d minutes after it as the end. Every call of \<^verbatim>\<open>createTimeEntry\<close> carries the
  ISO renderings of these two instants, and the call is made when no project is asked
  for. When the start without a start-time option falls outside the valid dates, the
  command fails on rendering it and creates nothing.
\<close>

theorem add_start_and_end:
  assumes "hasApiKey e" and "workspaceId e = Some ws" and "ws \<noteq> []"
    and "parseDuration e duration = Inr d"
    and "\<bar>now e\<bar> \<le> maxTime"
  shows "(\<not> truthy (opt_startTime opts) \<and> \<bar>now e - d * 60000\<bar> \<le> maxTime \<longrightarrow>
            (\<exists>s en. add_times e d opts = (Some s, Some en)
               \<and> en = now e \<and> s = now e - d * 60000 \<and> en - s = d * 60000
               \<and> (\<forall>w rq. Call (CreateTimeEntry w rq) \<in> set (snd (add e duration opts)) \<longrightarrow>
                     rq_start rq = toISOString e s \<and> rq_end rq = Some (toISOString e en))
               \<and> (\<not> truthy (opt_project opts) \<longrightarrow>
                     (\<exists>rq. Call (CreateTimeEntry ws rq) \<in> set (snd (add e duration opts))))))
       \<and> (\<not> truthy (opt_startTime opts) \<and> \<not> \<bar>now e - d * 60000\<bar> \<le> maxTime \<longrightarrow>
            add e duration opts =
              (Exited 1,
               [Print (''Adding manual time entry: '' @ duration),
                Print (''Duration: '' @ formatDuration e (Some d)),
                Print ''Failed to add time entry: Invalid time value'']))
       \<and> (\<forall>text s. opt_startTime opts = Some text \<and> text \<noteq> []
                    \<and> anchor e text (Some (now e)) = Some s
                    \<and> \<bar>s + d * 60000\<bar> \<le> maxTime \<longrightarrow>
            add_times e d opts = (Some s, Some (s + d * 60000))
            \<and> (\<forall>w rq. Call (CreateTimeEntry w rq) \<in> set (snd (add e duration opts)) \<longrightarrow>
                  rq_start rq = toISOString e s \<and> rq_end rq = Some (toISOString e (s + d * 60000)))
            \<and> (\<not> truthy (opt_project opts) \<longrightarrow>
                  (\<exists>rq. Call (CreateTimeEntry ws rq) \<in> set (snd (add e duration opts)))))"
proof (intro conjI impI allI)
  assume a: "\<not> truthy (opt_startTime opts) \<and> \<bar>now e - d * 60000\<bar> \<le> maxTime"
  then have t: "add_times e d opts = (Some (now e - d * 60000), Some (now e))"
    by (auto simp: add_times_def truthy_def truthy_value_def num_sub_def timeClip_def
        split: option.splits)
  from add_calls[OF assms(1-4) t] t
  show "\<exists>s en. add_times e d opts = (Some s, Some en)
               \<and> en = now e \<and> s = now e - d * 60000 \<and> en - s = d * 60000
               \<and> (\<forall>w rq. Call (CreateTimeEntry w rq) \<in> set (snd (add e duration opts)) \<longrightarrow>
                     rq_start rq = toISOString e s \<and> rq_end rq = Some (toISOString e en))
               \<and> (\<not> truthy (opt_project opts) \<longrightarrow>
                     (\<exists>rq. Call (CreateTimeEntry ws rq) \<in> set (snd (add e duration opts))))"
    by simp
next
  assume a: "\<not> truthy (opt_startTime opts) \<and> \<not> \<bar>now e - d * 60000\<bar> \<le> maxTime"
  then have "fst (add_times e d opts) = None"
    by (auto simp: add_times_def truthy_def truthy_value_def num_sub_def timeClip_def
        split: option.splits)
  then show "add e duration opts =
              (Exited 1,
               [Print (''Adding manual time entry: '' @ duration),
                Print (''Duration: '' @ formatDuration e (Some d)),
                Print ''Failed to add time entry: Invalid time value''])"
    by (rule add_invalid_start[OF assms(1-4)])
next
  fix tx s
  assume a: "opt_startTime opts = Some tx \<and> tx \<noteq> [] \<and> anchor e tx (Some (now e)) = Some s
             \<and> \<bar>s + d * 60000\<bar> \<le> maxTime"
  then show t: "add_times e d opts = (Some s, Some (s + d * 60000))"
    by (simp add: add_times_def truthy_value_def num_add_def timeClip_def)
  {
    fix w rq
    assume "Call (CreateTimeEntry w rq) \<in> set (snd (add e duration opts))"
    with add_calls[OF assms(1-4) t]
    show "rq_start rq = toISOString e s"
      and "rq_end rq = Some (toISOString e (s + d * 60000))"
      by simp_all
  }
  assume "\<not> truthy (opt_project opts)"
  with add_calls[OF assms(1-4) t]
  show "\<exists>rq. Call (CreateTimeEntry ws rq) \<in> set (snd (add e duration opts))"
    by simp
qed

theorem add_start_and_end_witness:
  "add_times (sample_env []) 60 no_options = (Some 1705309200000, Some 1705312800000)
   \<and> (\<exists>rq. Call (CreateTimeEntry ''w1'' rq) \<in> set (snd (add (sample_env []) ''60'' no_options))
          \<and> rq_start rq = ''2024-01-15T09:00:00.000Z''
          \<and> rq_end rq = Some ''2024-01-15T10:00:00.000Z'')
   \<and> add_times (sample_env []) 60 (no_options\<lparr>opt_startTime := Some ''08:00''\<rparr>)
        = (Some 1705302000000, Some 1705305600000)
   \<and> (\<exists>rq. Call (CreateTimeEntry ''w1'' rq)
                \<in> set (snd (add (sample_env []) ''60'' (no_options\<lparr>opt_startTime := Some ''08:00''\<rparr>)))
          \<and> rq_start rq = ''2024-01-15T07:00:00.000Z''
          \<and> rq_end rq = Some ''2024-01-15T08:00:00.000Z'')"
proof -
  let ?e = "sample_env []"
  let ?o = "no_options\<lparr>opt_startTime := Some ''08:00''\<rparr>"
  have n: "''w1'' \<noteq> []" by simp
  have nv: "\<bar>now (sample_env [])\<bar> \<le> maxTime"
    by (simp add: sample_env_more maxTime_def)
  note a = add_start_and_end[OF sample_env_simps(1)[of "[]"] sample_env_simps(2)[of "[]"] n
      sample_env_more(1)[of "[]"] nv]
  have o1: "\<not> truthy (opt_startTime no_options)" "\<not> truthy (opt_project no_options)"
    by (simp_all add: no_options_def truthy_def)
  have o2: "opt_startTime ?o = Some ''08:00''" "\<not> truthy (opt_project ?o)"
    by (simp_all add: no_options_def truthy_def)
  from a[of no_options] o1 have p1:
    "add_times ?e 60 no_options = (Some 1705309200000, Some 1705312800000)"
    "\<exists>rq. Call (CreateTimeEntry ''w1'' rq) \<in> set (snd (add ?e ''60'' no_options))
          \<and> rq_start rq = ''2024-01-15T09:00:00.000Z''
          \<and> rq_end rq = Some ''2024-01-15T10:00:00.000Z''"
    by (auto simp: sample_env_more maxTime_def)
  from a[of ?o] o2 sample_anchor(1)[of "[]"] have p2:
    "add_times ?e 60 ?o = (Some 1705302000000, Some 1705305600000)"
    "\<exists>rq. Call (CreateTimeEntry ''w1'' rq) \<in> set (snd (add ?e ''60'' ?o))
          \<and> rq_start rq = ''2024-01-15T07:00:00.000Z''
          \<and> rq_end rq = Some ''2024-01-15T08:00:00.000Z''"
    by (auto simp: sample_env_more maxTime_def)
  from p1 p2 show ?thesis by blast
qed

text \<open>
  The claim as first stated fails for a duration of 200000000000 minutes: the duration
  is read, the start falls before the first valid date, and the command ends with
  \<^verbatim>\<open>Invalid time value\<close> without a call of \<^verbatim>\<open>createTimeEntry\<close>.
\<close>

theorem add_huge_duration_counterexample:
  "parseDuration (sample_env []) ''200000000000'' = Inr 200000000000
   \<and> add (sample_env []) ''200000000000'' no_options =
       (Exited 1,
        [Print ''Adding manual time entry: 200000000000'',
         Print ''Duration: 200000000000m'',
         Print ''Failed to add time entry: Invalid time value''])"
proof -
  have t: "fst (add_times (sample_env []) 200000000000 no_options) = None"
    by (simp add: add_times_def no_options_def truthy_value_def num_sub_def timeClip_def
        maxTime_def sample_env_more)
  have n: "''w1'' \<noteq> []" by simp
  have f: "formatDuration (sample_env []) (Some 200000000000) = ''200000000000m''"
    by (simp add: sample_env_def digit_char_def)
  from add_invalid_start[OF sample_env_simps(1)[of "[]"] sample_env_simps(2)[of "[]"] n
      sample_env_more(2)[of "[]"] t] f sample_env_more(2)[of "[]"]
  show ?thesis by simp
qed

section \<open>Clock times\<close>

lemma digit_value_range: "is_digit c \<Longrightarrow> 0 \<le> digit_value c \<and> digit_value c \<le> 9"
  by (auto simp: is_digit_def digit_value_def Let_def)

lemma timeMatch_shape:
  assumes "tx = hh @ '':'' @ mm" and "length hh = 1 \<or> length hh = 2" and "length mm = 2"
    and "\<forall>c\<in>set (hh @ mm). is_digit c"
  shows "timeMatch tx = Some (hh, mm)"
proof -
  from assms(3) obtain m1 m2 where mm: "mm = [m1, m2]"
    by (cases mm; cases "tl mm") auto
  from assms(2) consider h1 where "hh = [h1]" | h1 h2 where "hh = [h1, h2]"
    by (cases hh; cases "tl hh") auto
  then show ?thesis
    using assms(1,4) mm by cases auto
qed

lemma parseInt_range:
  assumes "length s \<le> 2" and "\<forall>c\<in>set s. is_digit c"
  shows "0 \<le> parseInt s \<and> parseInt s \<le> 99"
proof -
  from assms(1) consider "s = []" | a where "s = [a]" | a b where "s = [a, b]"
    by (cases s; cases "tl s") auto
  then show ?thesis
  proof cases
    case 1 then show ?thesis by (simp add: parseInt_def)
  next
    case 2 with assms(2) digit_value_range[of a] show ?thesis by (simp add: parseInt_def)
  next
    case 3 with assms(2) digit_value_range[of a] digit_value_range[of b] show ?thesis
      by (simp add: parseInt_def)
  qed
qed

lemma div_mod_block:
  fixes a b c :: int
  assumes "0 \<le> b" and "b < c"
  shows "(a * c + b) div c = a" and "(a * c + b) mod c = b"
  using assms by (simp_all add: div_pos_pos_trivial mod_pos_pos_trivial)

lemma local_day_of:
  assumes "localTime tza r = D * msPerDay + h * 3600000 + m * 60000"
  shows "localDay tza r = D + (h * 60 + m) div 1440"
proof -
  have "h * 3600000 + m * 60000 = 60000 * (h * 60 + m)" by simp
  then have "(h * 3600000 + m * 60000) div 86400000 = (60000 * (h * 60 + m)) div (60000 * 1440)"
    by simp
  also have "\<dots> = (h * 60 + m) div 1440"
    by (rule div_mult_mult1) simp
  finally have k: "(h * 3600000 + m * 60000) div 86400000 = (h * 60 + m) div 1440" .
  have "localTime tza r div 86400000 = (D * 86400000 + (h * 3600000 + m * 60000)) div 86400000"
    using assms by (simp add: msPerDay_def)
  also have "\<dots> = D + (h * 3600000 + m * 60000) div 86400000"
    by simp
  finally show ?thesis by (simp add: localDay_def msPerDay_def k)
qed

lemma local_clock_of:
  assumes "localTime tza r = D * msPerDay + h * 3600000 + m * 60000"
    and "0 \<le> h" and "h < 24" and "0 \<le> m" and "m < 60"
  shows "localDay tza r = D" and "getHours tza r = h" and "getMinutes tza r = m"
    and "getSeconds tza r = 0" and "getMilliseconds tza r = 0"
proof -
  have x: "localTime tza r = D * 86400000 + (h * 3600000 + m * 60000)"
    using assms(1) by (simp add: msPerDay_def)
  have k: "0 \<le> h * 3600000 + m * 60000" "h * 3600000 + m * 60000 < 86400000"
    using assms(2-5) by auto
  show "localDay tza r = D"
    unfolding localDay_def msPerDay_def x using k by (rule div_mod_block(1))
  have md: "localTime tza r mod 86400000 = h * 3600000 + m * 60000"
    unfolding x using k by (rule div_mod_block(2))
  have mm: "0 \<le> m * 60000" "m * 60000 < 3600000" using assms(4,5) by auto
  show "getHours tza r = h"
    unfolding getHours_def msPerDay_def md using mm by (rule div_mod_block(1))
  have x2: "localTime tza r = (D * 24 + h) * 3600000 + m * 60000" using x by simp
  have "localTime tza r mod 3600000 = m * 60000"
    unfolding x2 using mm by (rule div_mod_block(2))
  then show "getMinutes tza r = m" by (simp add: getMinutes_def)
  have x3: "localTime tza r = (D * 1440 + h * 60 + m) * 60000 + 0" using x by simp
  have "localTime tza r mod 60000 = 0"
    unfolding x3 by (rule div_mod_block(2)) simp_all
  then show "getSeconds tza r = 0" by (simp add: getSeconds_def)
  have x4: "localTime tza r = (D * 86400 + h * 3600 + m * 60) * 1000 + 0" using x by simp
  have "localTime tza r mod 1000 = 0"
    unfolding x4 by (rule div_mod_block(2)) simp_all
  then show "getMilliseconds tza r = 0" by (simp add: getMilliseconds_def)
qed

lemma edit_build_times:
  assumes "opt_description opts = None" and "opt_billable opts = None"
    and "\<not> truthy (opt_project opts)"
  shows "edit_build e ws target opts tr =
           (case edit_startTime e target opts (edit_seed target, []) of
              Inl error \<Rightarrow> (tr, Inl error)
            | Inr u1 \<Rightarrow>
                (case edit_endTime e target opts u1 of
                   Inl error \<Rightarrow> (tr, Inl error)
                 | Inr u2 \<Rightarrow> (tr, Inr u2)))"
  using assms
  by (auto simp: edit_build_def edit_project_def edit_billable_def edit_description_def
      truthy_def truthy_value_def split: option.splits)

lemma edit_startTime_anchor:
  assumes "truthy_value (opt_startTime opts) = Some tx"
    and "Date_parse e (ti_start (timeInterval target)) = Some t"
    and "anchor e tx (Some t) = c"
  shows "edit_startTime e target opts u =
           (case c of None \<Rightarrow> Inl (Error ''Invalid time value'')
            | Some v \<Rightarrow> Inr ((fst u)\<lparr>rq_start := toISOString e v\<rparr>, snd u @ [''start time'']))"
  using assms by (simp add: edit_startTime_def toISOString_of_def split: option.splits)

lemma edit_endTime_anchor:
  assumes "truthy_value (opt_endTime opts) = Some tx"
    and "(case truthy_value (ti_end (timeInterval target)) of
            Some s \<Rightarrow> Date_parse e s | None \<Rightarrow> Some (now e)) = Some t"
    and "anchor e tx (Some t) = c"
  shows "edit_endTime e target opts u =
           (case c of None \<Rightarrow> Inl (Error ''Invalid time value'')
            | Some v \<Rightarrow> Inr ((fst u)\<lparr>rq_end := Some (toISOString e v)\<rparr>, snd u @ [''end time'']))"
  using assms by (simp add: edit_endTime_def toISOString_of_def split: option.splits)

lemma edit_times_absent:
  "truthy_value (opt_startTime opts) = None \<Longrightarrow> edit_startTime e target opts u = Inr u"
  "truthy_value (opt_endTime opts) = None \<Longrightarrow> edit_endTime e target opts u = Inr u"
  by (simp_all add: edit_startTime_def edit_endTime_def)

lemma sample_berlin_tza:
  "localTZA sample_berlin =
     (\<lambda>t isUTC. if isUTC then (if t < 1711846800000 then 3600000 else 7200000)
                else (if t < 1711854000000 then 3600000 else 7200000))"
  by (simp add: sample_berlin_def)

lemma sample_times:
  "timeMatch ''02:30'' = Some (''02'', ''30'')"
  "timeMatch ''09:30'' = Some (''09'', ''30'')"
  "parseInt ''02'' = 2" "parseInt ''09'' = 9" "parseInt ''30'' = 30" "parseInt ''24'' = 24"
  by (simp_all add: is_digit_def parseInt_def digit_value_def)

lemma sample_berlin_anchor:
  "anchor sample_berlin ''02:30'' (Some 1711879200000) = Some 1711848600000"
  "anchor sample_berlin ''09:30'' (Some 1711879200000) = Some 1711870200000"
  by (simp_all add: anchor_def is_digit_def sample_times setHours_def localDay_def
      localTime_def msPerDay_def sample_berlin_tza timeClip_def maxTime_def)

text \<open>
  C7, as amended. A text of one or two digits, a colon and two digits, resolved against
  a valid reference date (within 8.64e15 ms of the epoch): the result is the instant the zone gives to the local time
  made of the reference date's local day and the hours and minutes read from the text,
  clipped to the valid dates. The two numbers are between 0 and 99 and are not checked
  against 24 and 60. When the zone's offset at the resulting instant is the offset it
  gave that local time (the local time exists in the zone), the result reads as that
  local time: its local day is the reference day plus the whole days contained in the
  hours and minutes, and with hours below 24 and minutes below 60 it is on the reference
  day, at these hours and minutes, with seconds and milliseconds zero. \<^verbatim>\<open>add\<close>
  resolves its start-time so against the clock's reading, \<^verbatim>\<open>edit\<close> its
  start-time against the entry's start and its end-time against the entry's end, or the
  clock's reading when the entry has none.
\<close>

theorem anchor_clock_time:
  assumes "tx = hh @ '':'' @ mm" and "length hh = 1 \<or> length hh = 2" and "length mm = 2"
    and "\<forall>c\<in>set (hh @ mm). is_digit c"
    and "h = parseInt hh" and "m = parseInt mm" and "tza = localTZA e"
    and "wall = localDay tza t * msPerDay + h * 3600000 + m * 60000"
    and "r = wall - tza wall False"
    and "\<bar>t\<bar> \<le> maxTime"
  shows "anchor e tx (Some t) = timeClip (Some r)
       \<and> 0 \<le> h \<and> h \<le> 99 \<and> 0 \<le> m \<and> m \<le> 99
       \<and> (tza r True = tza wall False \<longrightarrow>
            localTime tza r = wall
            \<and> localDay tza r = localDay tza t + (h * 60 + m) div 1440
            \<and> (h < 24 \<and> m < 60 \<longrightarrow>
                 localDay tza r = localDay tza t \<and> getHours tza r = h \<and> getMinutes tza r = m
                 \<and> getSeconds tza r = 0 \<and> getMilliseconds tza r = 0))
       \<and> (t = now e \<and> opt_startTime opts = Some tx \<longrightarrow>
            add_times e d opts =
              (timeClip (Some r), timeClip (num_add (timeClip (Some r)) (Some (d * 60000)))))
       \<and> (Date_parse e (ti_start (timeInterval target)) = Some t
            \<and> opts = no_options\<lparr>opt_startTime := Some tx\<rparr> \<longrightarrow>
            edit_build e ws target opts tr =
              (case timeClip (Some r) of
                 None \<Rightarrow> (tr, Inl (Error ''Invalid time value''))
               | Some v \<Rightarrow>
                   (tr, Inr ((edit_seed target)\<lparr>rq_start := toISOString e v\<rparr>, [''start time'']))))
       \<and> ((case truthy_value (ti_end (timeInterval target)) of
               Some s \<Rightarrow> Date_parse e s | None \<Rightarrow> Some (now e)) = Some t
            \<and> opts = no_options\<lparr>opt_endTime := Some tx\<rparr> \<longrightarrow>
            edit_build e ws target opts tr =
              (case timeClip (Some r) of
                 None \<Rightarrow> (tr, Inl (Error ''Invalid time value''))
               | Some v \<Rightarrow>
                   (tr, Inr ((edit_seed target)\<lparr>rq_end := Some (toISOString e v)\<rparr>, [''end time'']))))"
proof (intro conjI impI)
  have tm: "timeMatch tx = Some (hh, mm)"
    using assms(1-4) by (rule timeMatch_shape)
  have ne: "tx \<noteq> []" using assms(1) by simp
  show a: "anchor e tx (Some t) = timeClip (Some r)"
    by (simp add: anchor_def tm setHours_def assms(5-9) Let_def add.assoc)
  have hr: "0 \<le> h \<and> h \<le> 99"
    unfolding assms(5) using assms(2,4) by (intro parseInt_range) auto
  have mr: "0 \<le> m \<and> m \<le> 99"
    unfolding assms(6) using assms(3,4) by (intro parseInt_range) auto
  from hr mr show "0 \<le> h" "h \<le> 99" "0 \<le> m" "m \<le> 99" by simp_all
  {
    assume z: "tza r True = tza wall False"
    then show l: "localTime tza r = wall"
      by (simp add: localTime_def assms(9))
    then have l': "localTime tza r = localDay tza t * msPerDay + h * 3600000 + m * 60000"
      by (simp add: assms(8))
    show "localDay tza r = localDay tza t + (h * 60 + m) div 1440"
      using l' by (rule local_day_of)
    assume "h < 24 \<and> m < 60"
    with local_clock_of[OF l'] hr mr
    show "localDay tza r = localDay tza t" "getHours tza r = h" "getMinutes tza r = m"
      "getSeconds tza r = 0" "getMilliseconds tza r = 0"
      by simp_all
  }
  {
    assume "t = now e \<and> opt_startTime opts = Some tx"
    with a ne show "add_times e d opts =
              (timeClip (Some r), timeClip (num_add (timeClip (Some r)) (Some (d * 60000))))"
      by (simp add: add_times_def truthy_value_def Let_def)
  }
  {
    assume s: "Date_parse e (ti_start (timeInterval target)) = Some t
            \<and> opts = no_options\<lparr>opt_startTime := Some tx\<rparr>"
    then have o: "opt_description opts = None" "opt_billable opts = None"
      "\<not> truthy (opt_project opts)" "truthy_value (opt_startTime opts) = Some tx"
      "truthy_value (opt_endTime opts) = None"
      using ne by (simp_all add: no_options_def truthy_def truthy_value_def)
    show "edit_build e ws target opts tr =
              (case timeClip (Some r) of
                 None \<Rightarrow> (tr, Inl (Error ''Invalid time value''))
               | Some v \<Rightarrow>
                   (tr, Inr ((edit_seed target)\<lparr>rq_start := toISOString e v\<rparr>, [''start time''])))"
      unfolding edit_build_times[OF o(1-3)]
        edit_startTime_anchor[OF o(4) s[THEN conjunct1] a]
      by (cases "timeClip (Some r)") (simp_all add: edit_times_absent(2)[OF o(5)])
  }
  {
    assume s: "(case truthy_value (ti_end (timeInterval target)) of
               Some s \<Rightarrow> Date_parse e s | None \<Rightarrow> Some (now e)) = Some t
            \<and> opts = no_options\<lparr>opt_endTime := Some tx\<rparr>"
    then have o: "opt_description opts = None" "opt_billable opts = None"
      "\<not> truthy (opt_project opts)" "truthy_value (opt_endTime opts) = Some tx"
      "truthy_value (opt_startTime opts) = None"
      using ne by (simp_all add: no_options_def truthy_def truthy_value_def)
    show "edit_build e ws target opts tr =
              (case timeClip (Some r) of
                 None \<Rightarrow> (tr, Inl (Error ''Invalid time value''))
               | Some v \<Rightarrow>
                   (tr, Inr ((edit_seed target)\<lparr>rq_end := Some (toISOString e v)\<rparr>, [''end time''])))"
      unfolding edit_build_times[OF o(1-3)] edit_times_absent(1)[OF o(5)]
      by (cases "timeClip (Some r)")
         (simp_all add: edit_endTime_anchor[OF o(4) s[THEN conjunct1] a])
  }
qed

theorem anchor_clock_time_witness:
  "anchor (sample_env []) ''09:30'' (Some 1705312800000) = Some 1705307400000
   \<and> localDay (localTZA (sample_env [])) 1705307400000 = localDay (localTZA (sample_env [])) 1705312800000
   \<and> getHours (localTZA (sample_env [])) 1705307400000 = 9
   \<and> getMinutes (localTZA (sample_env [])) 1705307400000 = 30
   \<and> getSeconds (localTZA (sample_env [])) 1705307400000 = 0
   \<and> getMilliseconds (localTZA (sample_env [])) 1705307400000 = 0
   \<and> anchor (sample_env []) ''24:30'' (Some 1705312800000) = Some 1705361400000
   \<and> localDay (localTZA (sample_env [])) 1705361400000
       = localDay (localTZA (sample_env [])) 1705312800000 + 1
   \<and> getHours (localTZA sample_berlin) 1711870200000 = 9
   \<and> getMinutes (localTZA sample_berlin) 1711870200000 = 30
   \<and> edit_build (sample_env []) ''w1''
        (sample_entry ''e2'' ''Mail'' ''2024-01-15T08:00:00Z'' (Some ''2024-01-15T08:30:00Z''))
        (no_options\<lparr>opt_startTime := Some ''09:30''\<rparr>) [] =
       ([], Inr ((edit_seed (sample_entry ''e2'' ''Mail'' ''2024-01-15T08:00:00Z''
                                (Some ''2024-01-15T08:30:00Z'')))
                   \<lparr>rq_start := ''2024-01-15T08:30:00.000Z''\<rparr>, [''start time'']))"
proof -
  let ?tza = "localTZA (sample_env [])"
  let ?bza = "localTZA sample_berlin"
  have d: "\<forall>c\<in>set (''09'' @ ''30''). is_digit c" "\<forall>c\<in>set (''24'' @ ''30''). is_digit c"
    by (simp_all add: is_digit_def)
  have v: "parseInt ''09'' = 9" "parseInt ''30'' = 30" "parseInt ''24'' = 24"
    by (simp_all add: parseInt_def digit_value_def)
  have z: "?tza = (\<lambda>t isUTC. 3600000)" by (simp add: sample_env_def)
  have bz: "?bza = (\<lambda>t isUTC. if isUTC then (if t < 1711846800000 then 3600000 else 7200000)
                   else (if t < 1711854000000 then 3600000 else 7200000))"
    by (simp add: sample_berlin_def)
  have c: "timeClip (Some 1705307400000) = Some 1705307400000"
    by (simp add: timeClip_def maxTime_def)
  from anchor_clock_time[where tx = "''09:30''" and hh = "''09''" and mm = "''30''"
      and e = "sample_env []" and t = 1705312800000, OF _ _ _ d(1) refl refl refl refl refl]
  have a: "localDay ?tza 1705307400000 = localDay ?tza 1705312800000
           \<and> getHours ?tza 1705307400000 = 9 \<and> getMinutes ?tza 1705307400000 = 30
           \<and> getSeconds ?tza 1705307400000 = 0 \<and> getMilliseconds ?tza 1705307400000 = 0"
    by (simp add: v z localDay_def localTime_def msPerDay_def maxTime_def)
  from anchor_clock_time[where tx = "''24:30''" and hh = "''24''" and mm = "''30''"
      and e = "sample_env []" and t = 1705312800000, OF _ _ _ d(2) refl refl refl refl refl]
  have b: "localDay ?tza 1705361400000 = localDay ?tza 1705312800000 + 1"
    by (simp add: v z localDay_def localTime_def msPerDay_def maxTime_def)
  from anchor_clock_time[where tx = "''09:30''" and hh = "''09''" and mm = "''30''"
      and e = sample_berlin and t = 1711879200000, OF _ _ _ d(1) refl refl refl refl refl]
  have g: "getHours ?bza 1711870200000 = 9 \<and> getMinutes ?bza 1711870200000 = 30"
    by (simp add: v bz localDay_def localTime_def msPerDay_def maxTime_def)
  have p: "Date_parse (sample_env []) ''2024-01-15T08:00:00Z'' = Some 1705305600000"
    by (simp add: sample_env_def sample_instants_def)
  have ti: "toISOString (sample_env []) 1705307400000 = ''2024-01-15T08:30:00.000Z''"
    by (simp add: sample_env_def sample_renderings_def)
  from anchor_clock_time[where tx = "''09:30''" and hh = "''09''" and mm = "''30''"
      and e = "sample_env []" and t = 1705305600000
      and target = "sample_entry ''e2'' ''Mail'' ''2024-01-15T08:00:00Z'' (Some ''2024-01-15T08:30:00Z'')"
      and opts = "no_options\<lparr>opt_startTime := Some ''09:30''\<rparr>" and ws = "''w1''" and tr = "[]",
      OF _ _ _ d(1) refl refl refl refl refl]
  have eb: "edit_build (sample_env []) ''w1''
        (sample_entry ''e2'' ''Mail'' ''2024-01-15T08:00:00Z'' (Some ''2024-01-15T08:30:00Z''))
        (no_options\<lparr>opt_startTime := Some ''09:30''\<rparr>) [] =
       ([], Inr ((edit_seed (sample_entry ''e2'' ''Mail'' ''2024-01-15T08:00:00Z''
                                (Some ''2024-01-15T08:30:00Z'')))
                   \<lparr>rq_start := ''2024-01-15T08:30:00.000Z''\<rparr>, [''start time'']))"
    by (simp add: v z p c ti localDay_def localTime_def msPerDay_def sample_entry_def
        maxTime_def)
  from a b g eb sample_anchor[of "[]"] show ?thesis by simp
qed

text \<open>
  The claim as first stated fails where a change of offset skips the local time: in
  Europe/Berlin on 2024-03-31 the text \<^verbatim>\<open>02:30\<close> resolves to 01:30 UTC, which
  reads 03:30 on that day.
\<close>

theorem anchor_skipped_hour_counterexample:
  "timeMatch ''02:30'' = Some (''02'', ''30'')
   \<and> parseInt ''02'' = 2 \<and> parseInt ''30'' = 30
   \<and> anchor sample_berlin ''02:30'' (Some 1711879200000) = Some 1711848600000
   \<and> localDay (localTZA sample_berlin) 1711848600000 = localDay (localTZA sample_berlin) 1711879200000
   \<and> getHours (localTZA sample_berlin) 1711848600000 = 3
   \<and> getMinutes (localTZA sample_berlin) 1711848600000 = 30"
  by (simp add: sample_berlin_anchor is_digit_def sample_times sample_berlin_tza localDay_def
      localTime_def getHours_def getMinutes_def msPerDay_def)

section \<open>Resolving a project\<close>

lemma project_matches_meaning:
  "project_matches e p q \<longleftrightarrow>
     (\<exists>a b. String_toLowerCase e (prj_name q) = a @ String_toLowerCase e p @ b) \<or> prj_id q = p"
  by (auto simp: project_matches_def str_includes_def sublist_def)

lemma find_first:
  "find P xs = Some x \<Longrightarrow> \<exists>before after. xs = before @ x # after \<and> P x \<and> (\<forall>y\<in>set before. \<not> P y)"
proof (induction xs)
  case Nil
  then show ?case by simp
next
  case (Cons a xs)
  show ?case
  proof (cases "P a")
    case True
    with Cons.prems have "a = x" by simp
    with True show ?thesis by (intro exI[of _ "[]"] exI[of _ xs]) simp
  next
    case False
    with Cons obtain before after where "xs = before @ x # after" "P x" "\<forall>y\<in>set before. \<not> P y"
      by auto
    with False show ?thesis by (intro exI[of _ "a # before"] exI[of _ after]) simp
  qed
qed

lemma sample_find:
  "find (project_matches (sample_env es) ''beta'') sample_projects
     = Some \<lparr> prj_id = ''p2'', prj_name = ''Beta Works'' \<rparr>"
  "find (project_matches (sample_env es) ''p1'') sample_projects
     = Some \<lparr> prj_id = ''p1'', prj_name = ''Alpha'' \<rparr>"
  "find (project_matches (sample_env es) ''gamma'') sample_projects = None"
  "find (project_matches (sample_env es) ''zeta'') sample_projects = None"
  by (simp_all add: sample_projects_def project_matches_def str_includes_def toLowerCase_def
      toLowerChar_def sublist_code prefix_code sample_env_def)

text \<open>
  C8, as amended. For every project list and every override text: a project matches
  when its lower-cased name contains the lower-cased override, or its id is the
  override, and the resolution finds the first match in the order of the list, or none
  when no project matches. When the override is given (a non-empty text) and the remote
  client answers with the list, \<^verbatim>\<open>edit\<close>, \<^verbatim>\<open>add\<close> and
  \<^verbatim>\<open>start\<close> put the id of that first match into the request. When no project
  matches, \<^verbatim>\<open>edit\<close> and \<^verbatim>\<open>add\<close> leave the request as it was, print a
  warning and go on; \<^verbatim>\<open>start\<close> asks the remote client to create a project of
  that name and puts the new id into the request, or, when the creation throws, warns
  and starts with the request as it was.
\<close>

theorem project_resolution:
  "(\<forall>q. project_matches e p q \<longleftrightarrow>
         (\<exists>a b. String_toLowerCase e (prj_name q) = a @ String_toLowerCase e p @ b)
         \<or> prj_id q = p)
   \<and> (case find (project_matches e p) ps of
         Some q \<Rightarrow>
           (\<exists>before after. ps = before @ q # after \<and> project_matches e p q
               \<and> (\<forall>x\<in>set before. \<not> project_matches e p x))
       | None \<Rightarrow> (\<forall>x\<in>set ps. \<not> project_matches e p x))
   \<and> (p \<noteq> [] \<and> opt_project opts = Some p \<and> getProjects e ws = Inr ps \<longrightarrow>
        (case find (project_matches e p) ps of
           Some q \<Rightarrow>
             edit_project e ws opts u tr =
               (tr @ [Call (GetProjects ws)],
                Inr ((fst u)\<lparr>rq_projectId := Some (prj_id q)\<rparr>,
                     snd u @ [''project -> '' @ prj_name q]))
             \<and> add_project e ws d opts rq tr =
                 add_create e ws d (rq\<lparr>rq_projectId := Some (prj_id q)\<rparr>)
                   (tr @ [Call (GetProjects ws), Print (''Project: '' @ prj_name q)])
             \<and> start_project e ws opts rq tr =
                 start_timer e ws (rq\<lparr>rq_projectId := Some (prj_id q)\<rparr>)
                   (tr @ [Call (GetProjects ws), Print (''Project: '' @ prj_name q)])
         | None \<Rightarrow>
             edit_project e ws opts u tr =
               (tr @ [Call (GetProjects ws),
                      Print (''Project '' @ p @ '' not found. Keeping current project.'')],
                Inr u)
             \<and> add_project e ws d opts rq tr =
                 add_create e ws d rq
                   (tr @ [Call (GetProjects ws),
                          Print (''Project '' @ p @ '' not found. Adding without project.'')])
             \<and> (\<forall>spec. spec = \<lparr> ps_name = sanitizeInput p, ps_isPublic = True,
                                  ps_billable = (case opt_billable opts of Some b \<Rightarrow> b
                                                 | None \<Rightarrow> billableByDefault e),
                                  ps_color = ''#4CAF50'' \<rparr> \<longrightarrow>
                  start_project e ws opts rq tr =
                    (case createProject e ws spec of
                       Inr newProject \<Rightarrow>
                         start_timer e ws (rq\<lparr>rq_projectId := Some (prj_id newProject)\<rparr>)
                           (tr @ [Call (GetProjects ws),
                                  Print (''Creating new project: '' @ p),
                                  Call (CreateProject ws spec),
                                  Print (''Project '' @ prj_name newProject @ '' created successfully!''),
                                  Print (''Project: '' @ prj_name newProject)])
                     | Inl error \<Rightarrow>
                         start_timer e ws rq
                           (tr @ [Call (GetProjects ws),
                                  Print (''Creating new project: '' @ p),
                                  Call (CreateProject ws spec),
                                  Print (''Failed to create project '' @ p @ ''. Starting without project.''),
                                  Print (''Error: '' @ error_message error)])))))"
proof (intro conjI allI impI)
  fix q
  show "project_matches e p q \<longleftrightarrow>
          (\<exists>a b. String_toLowerCase e (prj_name q) = a @ String_toLowerCase e p @ b)
          \<or> prj_id q = p"
    by (rule project_matches_meaning)
next
  show "case find (project_matches e p) ps of
         Some q \<Rightarrow>
           (\<exists>before after. ps = before @ q # after \<and> project_matches e p q
               \<and> (\<forall>x\<in>set before. \<not> project_matches e p x))
       | None \<Rightarrow> (\<forall>x\<in>set ps. \<not> project_matches e p x)"
  proof (cases "find (project_matches e p) ps")
    case None
    then have "\<forall>x\<in>set ps. \<not> project_matches e p x" by (simp add: find_None_iff)
    with None show ?thesis by simp
  next
    case (Some q)
    from find_first[OF Some] Some show ?thesis by simp
  qed
next
  assume a: "p \<noteq> [] \<and> opt_project opts = Some p \<and> getProjects e ws = Inr ps"
  then have tv: "truthy_value (opt_project opts) = Some p"
    by (simp add: truthy_value_def)
  from a tv show "case find (project_matches e p) ps of
           Some q \<Rightarrow>
             edit_project e ws opts u tr =
               (tr @ [Call (GetProjects ws)],
                Inr ((fst u)\<lparr>rq_projectId := Some (prj_id q)\<rparr>,
                     snd u @ [''project -> '' @ prj_name q]))
             \<and> add_project e ws d opts rq tr =
                 add_create e ws d (rq\<lparr>rq_projectId := Some (prj_id q)\<rparr>)
                   (tr @ [Call (GetProjects ws), Print (''Project: '' @ prj_name q)])
             \<and> start_project e ws opts rq tr =
                 start_timer e ws (rq\<lparr>rq_projectId := Some (prj_id q)\<rparr>)
                   (tr @ [Call (GetProjects ws), Print (''Project: '' @ prj_name q)])
         | None \<Rightarrow>
             edit_project e ws opts u tr =
               (tr @ [Call (GetProjects ws),
                      Print (''Project '' @ p @ '' not found. Keeping current project.'')],
                Inr u)
             \<and> add_project e ws d opts rq tr =
                 add_create e ws d rq
                   (tr @ [Call (GetProjects ws),
                          Print (''Project '' @ p @ '' not found. Adding without project.'')])
             \<and> (\<forall>spec. spec = \<lparr> ps_name = sanitizeInput p, ps_isPublic = True,
                                  ps_billable = (case opt_billable opts of Some b \<Rightarrow> b
                                                 | None \<Rightarrow> billableByDefault e),
                                  ps_color = ''#4CAF50'' \<rparr> \<longrightarrow>
                  start_project e ws opts rq tr =
                    (case createProject e ws spec of
                       Inr newProject \<Rightarrow>
                         start_timer e ws (rq\<lparr>rq_projectId := Some (prj_id newProject)\<rparr>)
                           (tr @ [Call (GetProjects ws),
                                  Print (''Creating new project: '' @ p),
                                  Call (CreateProject ws spec),
                                  Print (''Project '' @ prj_name newProject @ '' created successfully!''),
                                  Print (''Project: '' @ prj_name newProject)])
                     | Inl error \<Rightarrow>
                         start_timer e ws rq
                           (tr @ [Call (GetProjects ws),
                                  Print (''Creating new project: '' @ p),
                                  Call (CreateProject ws spec),
                                  Print (''Failed to create project '' @ p @ ''. Starting without project.''),
                                  Print (''Error: '' @ error_message error)])))"
    by (cases "find (project_matches e p) ps")
       (auto simp: edit_project_def add_project_def start_project_def await_def Let_def
          split: sum.splits)
qed

theorem project_resolution_witness:
  "find (project_matches (sample_env []) ''beta'') sample_projects
     = Some \<lparr> prj_id = ''p2'', prj_name = ''Beta Works'' \<rparr>
   \<and> edit_project (sample_env []) ''w1'' (no_options\<lparr>opt_project := Some ''beta''\<rparr>)
       (start_request (sample_env []) no_options, []) [] =
     ([Call (GetProjects ''w1'')],
      Inr ((start_request (sample_env []) no_options)\<lparr>rq_projectId := Some ''p2''\<rparr>,
           [''project -> Beta Works'']))
   \<and> edit_project (sample_env []) ''w1'' (no_options\<lparr>opt_project := Some ''p1''\<rparr>)
       (start_request (sample_env []) no_options, []) [] =
     ([Call (GetProjects ''w1'')],
      Inr ((start_request (sample_env []) no_options)\<lparr>rq_projectId := Some ''p1''\<rparr>,
           [''project -> Alpha'']))
   \<and> edit_project (sample_env []) ''w1'' (no_options\<lparr>opt_project := Some ''gamma''\<rparr>)
       (start_request (sample_env []) no_options, []) [] =
     ([Call (GetProjects ''w1''), Print ''Project gamma not found. Keeping current project.''],
      Inr (start_request (sample_env []) no_options, []))"
proof -
  let ?u = "(start_request (sample_env []) no_options, [])"
  note g = sample_env_simps(5)[of "[]" "''w1''"]
  from project_resolution[where p = "''beta''" and ps = sample_projects and e = "sample_env []"
        and ws = "''w1''" and opts = "no_options\<lparr>opt_project := Some ''beta''\<rparr>"
        and u = ?u and tr = "[]"]
    project_resolution[where p = "''p1''" and ps = sample_projects and e = "sample_env []"
        and ws = "''w1''" and opts = "no_options\<lparr>opt_project := Some ''p1''\<rparr>"
        and u = ?u and tr = "[]"]
    project_resolution[where p = "''gamma''" and ps = sample_projects and e = "sample_env []"
        and ws = "''w1''" and opts = "no_options\<lparr>opt_project := Some ''gamma''\<rparr>"
        and u = ?u and tr = "[]"]
  show ?thesis by (simp add: sample_find g)
qed

text \<open>
  The claim as first stated fails for \<^verbatim>\<open>start\<close>: with an override that no
  project matches, the request that starts the timer carries the id of a project
  created on the way.
\<close>

theorem start_creates_project_counterexample:
  "find (project_matches (sample_env []) ''zeta'') sample_projects = None
   \<and> start (sample_env []) (no_options\<lparr>opt_project := Some ''zeta''\<rparr>) =
       (Returned,
        [Print ''Starting timer...'', Call GetCurrentUser, Call (GetTimeEntries ''w1'' ''u1''),
         Call (GetProjects ''w1''),
         Print ''Creating new project: zeta'',
         Call (CreateProject ''w1''
           \<lparr> ps_name = ''zeta'', ps_isPublic = True, ps_billable = False, ps_color = ''#4CAF50'' \<rparr>),
         Print ''Project zeta created successfully!'', Print ''Project: zeta'',
         Call (StartTimer ''w1''
           \<lparr> rq_start = ''2024-01-15T10:00:00.000Z'', rq_end = None, rq_description = [],
             rq_billable = False, rq_projectId = Some ''p9'', rq_taskId = None,
             rq_tagIds = None \<rparr>),
         Print ''Timer started successfully!'', Print rule_line,
         Print ''Description: No description'', Print ''Billable: No'',
         Print ''Started: a time'', Print rule_line,
         Print ''Use clockify status to check progress or clockify stop to finish''])"
proof -
  have s: "sanitizeInput ''zeta'' = ''zeta''"
    by (simp add: sanitizeInput_def is_control_def)
  have c: "\<And>ws spec. createProject (sample_env []) ws spec = Inr \<lparr> prj_id = ''p9'', prj_name = ps_name spec \<rparr>"
    "\<And>ws rq. startTimer (sample_env []) ws rq = Inr (sample_answer rq)"
    "\<And>d. toLocaleTimeString (sample_env []) d = ''a time''"
    "billableByDefault (sample_env []) = False"
    by (simp_all add: sample_env_def)
  show ?thesis
    by (simp add: sample_find start_def start_body_def start_project_def start_timer_def
        start_request_def await_def catch_def truthy_value_def or_text_def yes_no_def s c
        sample_env_simps sample_env_more Let_def no_options_def sample_answer_def
        running_def)
qed

section \<open>An empty end\<close>

lemma running_blank:
  "running entry \<longleftrightarrow> ti_end (timeInterval entry) = None \<or> ti_end (timeInterval entry) = Some []"
  by (cases "ti_end (timeInterval entry)") (simp_all add: running_def truthy_def)

lemma find_after_prefix:
  "\<forall>x\<in>set before. \<not> P x \<Longrightarrow> P y \<Longrightarrow> find P (before @ y # after) = Some y"
  by (induction before) simp_all

lemma find_running_map:
  assumes "\<And>x. running (f x) = running x"
  shows "find running (map f es) = map_option f (find running es)"
  by (induction es) (simp_all add: assms)

lemma map_absent_idle:
  assumes "find running es = None"
    and "absent = (\<lambda>entry. if ti_end (timeInterval entry) = Some []
                           then entry\<lparr>timeInterval := (timeInterval entry)\<lparr>ti_end := None\<rparr>\<rparr>
                           else entry)"
  shows "map absent es = es"
proof -
  from assms(1) have "\<forall>x\<in>set es. \<not> running x" by (simp add: find_None_iff)
  then have "\<forall>x\<in>set es. absent x = x"
    by (auto simp: assms(2) running_blank)
  then show ?thesis by (simp add: map_idI)
qed

lemma blank_as_absent:
  assumes "absent = (\<lambda>entry. if ti_end (timeInterval entry) = Some []
                           then entry\<lparr>timeInterval := (timeInterval entry)\<lparr>ti_end := None\<rparr>\<rparr>
                           else entry)"
    and "e' = e\<lparr>getTimeEntries := \<lambda>ws uid. map_sum id (map absent) (getTimeEntries e ws uid)\<rparr>"
  shows "start e' opts = start e opts" and "stop e' = stop e" and "status e' = status e"
proof -
  have ra: "\<And>x. running (absent x) = running x"
    by (simp add: assms(1) running_def truthy_def)
  have fm: "\<And>es. find running (map absent es) = map_option absent (find running es)"
    using ra by (rule find_running_map)
  have keep: "\<And>x. description (absent x) = description x"
    "\<And>x. billable (absent x) = billable x"
    "\<And>x. project_name (absent x) = project_name x"
    "\<And>x. task_name (absent x) = task_name x"
    "\<And>x. ti_start (timeInterval (absent x)) = ti_start (timeInterval x)"
    by (simp_all add: assms(1))
  have st: "\<And>ws rq tr. start_timer e' ws rq tr = start_timer e ws rq tr"
    by (simp add: assms(2) start_timer_def)
  have pm: "\<And>p. project_matches e' p = project_matches e p"
    by (simp add: assms(2) project_matches_def fun_eq_iff)
  have sp: "\<And>ws rq tr. start_project e' ws opts rq tr = start_project e ws opts rq tr"
    unfolding start_project_def st pm
    by (auto simp: assms(2) await_def Let_def split: option.splits sum.splits)
  have sr: "start_request e' opts = start_request e opts"
    by (simp add: assms(2) start_request_def split: option.splits)
  have "start_body e' opts = start_body e opts"
    unfolding start_body_def sp sr
    by (auto simp: assms(2) await_def fm keep Let_def split: option.splits sum.splits)
  then show "start e' opts = start e opts" by (simp add: start_def)
  have de: "\<And>ti. Date_of_end e' ti = Date_of_end e ti"
    by (simp add: assms(2) Date_of_end_def cong: option.case_cong)
  have "stop_body e' = stop_body e"
    unfolding stop_body_def de
    by (auto simp: assms(2) await_def fm keep Let_def split: option.splits sum.splits
        cong: option.case_cong sum.case_cong)
  then show "stop e' = stop e" by (simp add: stop_def)
  have te: "\<And>es. todayEntries e' es = todayEntries e es"
    by (simp add: assms(2) todayEntries_def)
  have tm: "\<And>es. totalMinutes e' es = totalMinutes e es"
    by (simp add: assms(2) totalMinutes_def entry_minutes_def Date_of_end_def
        cong: option.case_cong)
  have idle: "\<And>es. find running es = None \<Longrightarrow> map absent es = es"
    by (rule map_absent_idle[OF _ assms(1)])
  have "status_body e' = status_body e"
    unfolding status_body_def te tm
    by (auto simp: assms(2) await_def fm keep idle Let_def split: option.splits sum.splits
        cong: option.case_cong sum.case_cong)
  then show "status e' = status e" by (simp add: status_def)
qed

text \<open>
  C10. An entry whose end is present and the empty string counts as running, as one
  whose end is absent does. When it is the first running entry of the fetched
  collection, \<^verbatim>\<open>start\<close> refuses and names it as the current one,
  \<^verbatim>\<open>stop\<close> goes on to call \<^verbatim>\<open>stopTimer\<close>, and \<^verbatim>\<open>status\<close>
  reports it as the running timer. Replacing every empty-string end among the fetched
  entries by an absent end changes nothing in what the three commands do.
\<close>

theorem blank_end_counts_as_running:
  assumes "hasApiKey e" and "workspaceId e = Some ws" and "ws \<noteq> []"
    and "getCurrentUser e = Inr u"
    and "getTimeEntries e ws (usr_id u) = Inr es"
    and "es = before @ entry # after"
    and "\<forall>x\<in>set before. truthy (ti_end (timeInterval x))"
    and "ti_end (timeInterval entry) = Some []"
    and "absent = (\<lambda>entry. if ti_end (timeInterval entry) = Some []
                           then entry\<lparr>timeInterval := (timeInterval entry)\<lparr>ti_end := None\<rparr>\<rparr>
                           else entry)"
    and "e' = e\<lparr>getTimeEntries := \<lambda>ws uid. map_sum id (map absent) (getTimeEntries e ws uid)\<rparr>"
  shows "running entry \<and> find running es = Some entry
       \<and> start e opts =
           (Returned,
            [Print ''Starting timer...'', Call GetCurrentUser, Call (GetTimeEntries ws (usr_id u)),
             Print ''Timer already running!'',
             Print (''Current: '' @ or_text (description entry) ''No description''),
             Print ''Use clockify stop first or clockify status to see details''])
       \<and> (case stopTimer e ws (usr_id u) of
             Inl error \<Rightarrow>
               stop e =
                 (Exited 1,
                  [Print ''Stopping timer...'', Call GetCurrentUser,
                   Call (GetTimeEntries ws (usr_id u)), Call (StopTimer ws (usr_id u)),
                   Print (''Failed to stop timer: '' @ error_message error)])
           | Inr stoppedEntry \<Rightarrow>
               stop e =
                 (Returned,
                  [Print ''Stopping timer...'', Call GetCurrentUser,
                   Call (GetTimeEntries ws (usr_id u)), Call (StopTimer ws (usr_id u)),
                   Print ''Timer stopped successfully!'', Print rule_line]
                  @ (case truthy_value (project_name stoppedEntry) of
                       Some n \<Rightarrow> [Print (''Project: '' @ n)] | None \<Rightarrow> [])
                  @ [Print (''Description: '' @ or_text (description stoppedEntry) ''No description''),
                     Print (''Duration: '' @ formatDuration e
                              (round_minutes (num_sub (Date_of_end e (timeInterval stoppedEntry))
                                 (Date_parse e (ti_start (timeInterval stoppedEntry)))))),
                     Print (''Billable: '' @ yes_no (billable stoppedEntry)),
                     Print rule_line]))
       \<and> status e =
           (Returned,
            [Print ''Checking timer status...'', Call GetCurrentUser,
             Call (GetTimeEntries ws (usr_id u)),
             Print ''Timer is running'', Print rule_line]
            @ (case truthy_value (project_name entry) of
                 Some n \<Rightarrow> [Print (''Project: '' @ n)]
               | None \<Rightarrow> [Print ''Project: No project''])
            @ (case truthy_value (task_name entry) of
                 Some n \<Rightarrow> [Print (''Task: '' @ n)] | None \<Rightarrow> [])
            @ [Print (''Description: '' @ or_text (description entry) ''No description''),
               Print (''Started: '' @ toLocaleTimeString e (Date_parse e (ti_start (timeInterval entry)))),
               Print (''Elapsed: '' @ formatDuration e
                        (round_minutes (num_sub (Some (now e))
                           (Date_parse e (ti_start (timeInterval entry)))))),
               Print (''Billable: '' @ yes_no (billable entry)),
               Print rule_line,
               Print ''Use clockify stop to finish or clockify stop -d Final description to update description''])
       \<and> start e' opts = start e opts \<and> stop e' = stop e \<and> status e' = status e"
proof -
  have r: "running entry" using assms(8) by (simp add: running_blank)
  have "\<forall>x\<in>set before. \<not> running x" using assms(7) by (simp add: running_def)
  then have f: "find running es = Some entry"
    unfolding assms(6) using r by (rule find_after_prefix)
  have s1: "start e opts =
           (Returned,
            [Print ''Starting timer...'', Call GetCurrentUser, Call (GetTimeEntries ws (usr_id u)),
             Print ''Timer already running!'',
             Print (''Current: '' @ or_text (description entry) ''No description''),
             Print ''Use clockify stop first or clockify status to see details''])"
    using assms(1-5) f
    by (simp add: start_def start_body_def await_def catch_def truthy_value_def)
  have s2: "case stopTimer e ws (usr_id u) of
             Inl error \<Rightarrow>
               stop e =
                 (Exited 1,
                  [Print ''Stopping timer...'', Call GetCurrentUser,
                   Call (GetTimeEntries ws (usr_id u)), Call (StopTimer ws (usr_id u)),
                   Print (''Failed to stop timer: '' @ error_message error)])
           | Inr stoppedEntry \<Rightarrow>
               stop e =
                 (Returned,
                  [Print ''Stopping timer...'', Call GetCurrentUser,
                   Call (GetTimeEntries ws (usr_id u)), Call (StopTimer ws (usr_id u)),
                   Print ''Timer stopped successfully!'', Print rule_line]
                  @ (case truthy_value (project_name stoppedEntry) of
                       Some n \<Rightarrow> [Print (''Project: '' @ n)] | None \<Rightarrow> [])
                  @ [Print (''Description: '' @ or_text (description stoppedEntry) ''No description''),
                     Print (''Duration: '' @ formatDuration e
                              (round_minutes (num_sub (Date_of_end e (timeInterval stoppedEntry))
                                 (Date_parse e (ti_start (timeInterval stoppedEntry)))))),
                     Print (''Billable: '' @ yes_no (billable stoppedEntry)),
                     Print rule_line])"
    using assms(1-5) f
    by (cases "stopTimer e ws (usr_id u)")
       (simp_all add: stop_def stop_body_def await_def catch_def truthy_value_def Let_def)
  have s3: "status e =
           (Returned,
            [Print ''Checking timer status...'', Call GetCurrentUser,
             Call (GetTimeEntries ws (usr_id u)),
             Print ''Timer is running'', Print rule_line]
            @ (case truthy_value (project_name entry) of
                 Some n \<Rightarrow> [Print (''Project: '' @ n)]
               | None \<Rightarrow> [Print ''Project: No project''])
            @ (case truthy_value (task_name entry) of
                 Some n \<Rightarrow> [Print (''Task: '' @ n)] | None \<Rightarrow> [])
            @ [Print (''Description: '' @ or_text (description entry) ''No description''),
               Print (''Started: '' @ toLocaleTimeString e (Date_parse e (ti_start (timeInterval entry)))),
               Print (''Elapsed: '' @ formatDuration e
                        (round_minutes (num_sub (Some (now e))
                           (Date_parse e (ti_start (timeInterval entry)))))),
               Print (''Billable: '' @ yes_no (billable entry)),
               Print rule_line,
               Print ''Use clockify stop to finish or clockify stop -d Final description to update description''])"
    using assms(1-5) f
    by (simp add: status_def status_body_def await_def catch_def truthy_value_def Let_def)
  from r f s1 s2 s3 blank_as_absent[OF assms(9,10)] show ?thesis by simp
qed

theorem blank_end_counts_as_running_witness:
  "running (sample_entry ''e5'' ''Draft'' ''2024-01-15T09:00:00Z'' (Some []))
   \<and> start (sample_env [sample_entry ''e2'' ''Mail'' ''2024-01-15T08:00:00Z'' (Some ''2024-01-15T08:30:00Z''),
                        sample_entry ''e5'' ''Draft'' ''2024-01-15T09:00:00Z'' (Some [])]) no_options =
       (Returned,
        [Print ''Starting timer...'', Call GetCurrentUser, Call (GetTimeEntries ''w1'' ''u1''),
         Print ''Timer already running!'', Print ''Current: Draft'',
         Print ''Use clockify stop first or clockify status to see details''])
   \<and> stop (sample_env [sample_entry ''e2'' ''Mail'' ''2024-01-15T08:00:00Z'' (Some ''2024-01-15T08:30:00Z''),
                       sample_entry ''e5'' ''Draft'' ''2024-01-15T09:00:00Z'' (Some [])]) =
       (Returned,
        [Print ''Stopping timer...'', Call GetCurrentUser, Call (GetTimeEntries ''w1'' ''u1''),
         Call (StopTimer ''w1'' ''u1''),
         Print ''Timer stopped successfully!'', Print rule_line,
         Print ''Project: Alpha'', Print ''Description: Report'', Print ''Duration: 1m'',
         Print ''Billable: Yes'', Print rule_line])
   \<and> status (sample_env [sample_entry ''e2'' ''Mail'' ''2024-01-15T08:00:00Z'' (Some ''2024-01-15T08:30:00Z''),
                         sample_entry ''e5'' ''Draft'' ''2024-01-15T09:00:00Z'' (Some [])]) =
       (Returned,
        [Print ''Checking timer status...'', Call GetCurrentUser, Call (GetTimeEntries ''w1'' ''u1''),
         Print ''Timer is running'', Print rule_line,
         Print ''Project: Alpha'', Print ''Description: Draft'', Print ''Started: a time'',
         Print ''Elapsed: 60m'', Print ''Billable: Yes'', Print rule_line,
         Print ''Use clockify stop to finish or clockify stop -d Final description to update description''])"
proof -
  let ?m = "sample_entry ''e2'' ''Mail'' ''2024-01-15T08:00:00Z'' (Some ''2024-01-15T08:30:00Z'')"
  let ?d = "sample_entry ''e5'' ''Draft'' ''2024-01-15T09:00:00Z'' (Some [])"
  let ?e = "sample_env [?m, ?d]"
  have n: "''w1'' \<noteq> []" by simp
  have es: "[?m, ?d] = [?m] @ ?d # []" by simp
  have b: "\<forall>x\<in>set [?m]. truthy (ti_end (timeInterval x))"
    by (simp add: sample_entry_def truthy_def)
  have en: "ti_end (timeInterval ?d) = Some []" by (simp add: sample_entry_def)
  have c: "\<And>es ws uid. stopTimer (sample_env es) ws uid =
             Inr (sample_entry ''e1'' ''Report'' ''2024-01-15T09:00:00Z'' (Some ''2024-01-15T09:01:29Z''))"
    "\<And>es. formatDuration (sample_env es) (Some 1) = ''1m''"
    "\<And>es. formatDuration (sample_env es) (Some 60) = ''60m''"
    "\<And>es d. toLocaleTimeString (sample_env es) d = ''a time''"
    "\<And>es. Date_parse (sample_env es) ''2024-01-15T09:00:00Z'' = Some 1705309200000"
    "\<And>es. Date_parse (sample_env es) ''2024-01-15T09:01:29Z'' = Some 1705309289000"
    by (simp_all add: sample_env_def sample_instants_def digit_char_def)
  from blank_end_counts_as_running[OF sample_env_simps(1)[of "[?m, ?d]"]
      sample_env_simps(2)[of "[?m, ?d]"] n sample_env_simps(3)[of "[?m, ?d]"]
      sample_env_simps(4)[of "[?m, ?d]"] es b en refl refl, of no_options]
  show ?thesis
    by (simp add: c sample_env_more)
       (simp add: sample_entry_def or_text_def yes_no_def truthy_value_def Date_of_end_def
          num_sub_def round_minutes_def c)
qed

end
